theory Spec2Isabelle
  imports Main
begin

section \<open>Python values\<close>

text \<open>
  A Python \<open>str\<close> is a sequence of Unicode code points, so it is modelled as a list of
  natural numbers, one per code point. \<open>str\<close> turns an ASCII literal into such a list.
\<close>

type_synonym pystr = "nat list"

definition str :: "string \<Rightarrow> pystr" where
  "str s = map of_char s"

text \<open>
  \<open>str.isspace\<close> on one code point: the code points CPython classifies as whitespace.
  \<open>str.strip()\<close> without argument removes exactly these from both ends.
\<close>

definition isspace :: "nat \<Rightarrow> bool" where
  "isspace c \<longleftrightarrow>
     (9 \<le> c \<and> c \<le> 13) \<or> (28 \<le> c \<and> c \<le> 32) \<or> c = 133 \<or> c = 160 \<or> c = 5760 \<or>
     (8192 \<le> c \<and> c \<le> 8202) \<or> c = 8232 \<or> c = 8233 \<or> c = 8239 \<or> c = 8287 \<or> c = 12288"

definition strip :: "pystr \<Rightarrow> pystr" where
  "strip s = rev (dropWhile isspace (rev (dropWhile isspace s)))"

definition startswith :: "pystr \<Rightarrow> pystr \<Rightarrow> bool" where
  "startswith s p \<longleftrightarrow> take (length p) s = p"

definition endswith :: "pystr \<Rightarrow> pystr \<Rightarrow> bool" where
  "endswith s p \<longleftrightarrow> length p \<le> length s \<and> drop (length s - length p) s = p"

text \<open>\<open>sep.join(xs)\<close>.\<close>

fun join :: "pystr \<Rightarrow> pystr list \<Rightarrow> pystr" where
  "join sep [] = []"
| "join sep [x] = x"
| "join sep (x # y # ys) = x @ sep @ join sep (y # ys)"

text \<open>
  The values \<open>json.loads\<close> can return. A Python \<open>float\<close> is an IEEE double; the program
  only passes such values through, so the type is left opaque. A \<open>dict\<close> keeps its
  entries in insertion order and is modelled as an association list in that order; the
  dictionaries Python builds have pairwise distinct keys.
\<close>

typedecl pyfloat

datatype json =
    JNull
  | JBool bool
  | JInt int
  | JFloat pyfloat
  | JStr pystr
  | JList "json list"
  | JDict "(pystr \<times> json) list"

type_synonym 'v pydict = "(pystr \<times> 'v) list"

type_synonym dict = "json pydict"

text \<open>\<open>k in d\<close>, \<open>d.keys()\<close> and \<open>d[k] = v\<close> on an insertion-ordered dictionary.\<close>

definition contains :: "'v pydict \<Rightarrow> pystr \<Rightarrow> bool" where
  "contains d k \<longleftrightarrow> map_of d k \<noteq> None"

definition keys :: "'v pydict \<Rightarrow> pystr list" where
  "keys d = map fst d"

fun setitem :: "'v pydict \<Rightarrow> pystr \<Rightarrow> 'v \<Rightarrow> 'v pydict" where
  "setitem [] k v = [(k, v)]"
| "setitem ((k', v') # d) k v = (if k' = k then (k', v) # d else (k', v') # setitem d k v)"

text \<open>
  The exceptions that occur: each carries the text \<open>str(e)\<close> gives. \<open>Exception\<close> stands
  for any other subclass of Python's \<open>Exception\<close> that the JSON decoder may raise.
\<close>

datatype exn =
    JSONDecodeError pystr
  | AttributeError pystr
  | KeyError pystr
  | ValueError pystr
  | Exception pystr

fun exn_str :: "exn \<Rightarrow> pystr" where
  "exn_str (JSONDecodeError m) = m"
| "exn_str (AttributeError m) = m"
| "exn_str (KeyError m) = m"
| "exn_str (ValueError m) = m"
| "exn_str (Exception m) = m"

fun type_name :: "json \<Rightarrow> pystr" where
  "type_name JNull = str ''NoneType''"
| "type_name (JBool b) = str ''bool''"
| "type_name (JInt i) = str ''int''"
| "type_name (JFloat f) = str ''float''"
| "type_name (JStr s) = str ''str''"
| "type_name (JList xs) = str ''list''"
| "type_name (JDict d) = str ''dict''"

text \<open>The error of an attribute lookup that fails, as in \<open>[].get\<close>; \<open>quoted\<close> puts a text
  between apostrophes (code point 39).\<close>

definition quoted :: "pystr \<Rightarrow> pystr" where
  "quoted s = [39] @ s @ [39]"

definition no_attribute :: "json \<Rightarrow> pystr \<Rightarrow> exn" where
  "no_attribute x a =
     AttributeError (quoted (type_name x) @ str '' object has no attribute '' @ quoted a)"

text \<open>\<open>x.get(k, dflt)\<close>, \<open>x.keys()\<close> and \<open>x.items()\<close> on a decoded value \<open>x\<close>: only a
  \<open>dict\<close> has these methods.\<close>

fun py_get :: "json \<Rightarrow> pystr \<Rightarrow> json \<Rightarrow> exn + json" where
  "py_get (JDict d) k dflt = Inr (case map_of d k of Some v \<Rightarrow> v | None \<Rightarrow> dflt)"
| "py_get x k dflt = Inl (no_attribute x (str ''get''))"

fun py_keys :: "json \<Rightarrow> exn + pystr list" where
  "py_keys (JDict d) = Inr (keys d)"
| "py_keys x = Inl (no_attribute x (str ''keys''))"

fun py_items :: "json \<Rightarrow> exn + dict" where
  "py_items (JDict d) = Inr d"
| "py_items x = Inl (no_attribute x (str ''items''))"

section \<open>The analysis result\<close>

text \<open>
  Modelled from the spec: the class \<open>AnalysisResult\<close> of \<open>app/models/domain.py\<close>, which
  the services import, is not among the sources. The spec gives it the two fields
  \<open>summary\<close> and \<open>files\<close>; constructing one stores the two arguments as they are.
\<close>

record AnalysisResult =
  summary :: json
  files :: dict

section \<open>The response normalizer: \<open>AIService._parse_response\<close>\<close>

text \<open>
  The first lines of the function: the response text with a Markdown code fence around
  it removed. The slices \<open>[7:]\<close>, \<open>[3:]\<close> and \<open>[:-3]\<close> are \<open>drop 7\<close>, \<open>drop 3\<close> and (the
  text being at least three long where the last one is taken) \<open>take (length - 3)\<close>.
\<close>

definition clean_response :: "pystr \<Rightarrow> pystr" where
  "clean_response response_text =
    (let cleaned_text = strip response_text;
         cleaned_text = (if startswith cleaned_text (str ''```json'') then drop 7 cleaned_text
                         else cleaned_text);
         cleaned_text = (if startswith cleaned_text (str ''```'') then drop 3 cleaned_text
                         else cleaned_text);
         cleaned_text = (if endswith cleaned_text (str ''```'')
                         then take (length cleaned_text - 3) cleaned_text
                         else cleaned_text)
     in strip cleaned_text)"

text \<open>The copy loop \<open>for key, value in files_dict.items(): normalized_files[key] = value\<close>.\<close>

fun copy_items :: "dict \<Rightarrow> dict \<Rightarrow> dict" where
  "copy_items normalized_files [] = normalized_files"
| "copy_items normalized_files ((key, val) # items) =
     copy_items (setitem normalized_files key val) items"

text \<open>
  The scan for a React component file: the first key, in the iteration order of the
  dictionary, that is one of the six names; the loop stops there (\<open>break\<close>). \<open>Some key\<close>
  is \<open>react_file_found = True\<close> with \<open>react_file_key = key\<close>.
\<close>

definition react_names :: "pystr list" where
  "react_names =
     [str ''App.jsx'', str ''App.tsx'', str ''app.jsx'', str ''app.tsx'', str ''App.js'',
      str ''app.js'']"

fun find_react_file :: "pystr list \<Rightarrow> pystr option" where
  "find_react_file [] = None"
| "find_react_file (key # rest) =
     (if key \<in> set react_names then Some key else find_react_file rest)"

text \<open>
  The remap: when the file found is not \<open>App.jsx\<close> and \<open>App.jsx\<close> is not a key, \<open>App.jsx\<close>
  gets the content of the file found. The subscript \<open>normalized_files[react_file_key]\<close>
  raises \<open>KeyError\<close> on a key that is not there.
\<close>

definition map_react_file :: "pystr option \<Rightarrow> dict \<Rightarrow> exn + dict" where
  "map_react_file react_file normalized_files =
    (case react_file of
       None \<Rightarrow> Inr normalized_files
     | Some react_file_key \<Rightarrow>
         if react_file_key \<noteq> str ''App.jsx'' then
           if \<not> contains normalized_files (str ''App.jsx'') then
             (case map_of normalized_files react_file_key of
                None \<Rightarrow> Inl (KeyError (quoted react_file_key))
              | Some content \<Rightarrow> Inr (setitem normalized_files (str ''App.jsx'') content))
           else Inr normalized_files
         else Inr normalized_files)"

text \<open>The placeholders. The text for \<open>App.jsx\<close> has three lines, the others two.\<close>

definition app_jsx_placeholder :: pystr where
  "app_jsx_placeholder =
     str ''# App.jsx\<newline># File not generated by AI\<newline># Please check the AI response''"

definition critical_files :: "(pystr \<times> pystr) list" where
  "critical_files =
     [(str ''models.py'', str ''# SQLAlchemy models\<newline># File not generated by AI''),
      (str ''main.py'', str ''# FastAPI application\<newline># File not generated by AI''),
      (str ''README.md'', str ''# README\<newline># File not generated by AI'')]"

definition ensure_app_jsx :: "dict \<Rightarrow> dict" where
  "ensure_app_jsx normalized_files =
    (if \<not> contains normalized_files (str ''App.jsx'')
     then setitem normalized_files (str ''App.jsx'') (JStr app_jsx_placeholder)
     else normalized_files)"

text \<open>The loop \<open>for file_name, placeholder in critical_files.items()\<close>.\<close>

fun add_placeholders :: "dict \<Rightarrow> (pystr \<times> pystr) list \<Rightarrow> dict" where
  "add_placeholders normalized_files [] = normalized_files"
| "add_placeholders normalized_files ((file_name, placeholder) # rest) =
     add_placeholders
       (if \<not> contains normalized_files file_name
        then setitem normalized_files file_name (JStr placeholder)
        else normalized_files) rest"

text \<open>
  The body of the \<open>try\<close> block. \<open>loads\<close> is the library function \<open>json.loads\<close>, taken as a
  parameter: it returns the decoded value or raises. Logging has no effect on the
  result, except that the log line \<open>list(files_dict.keys())\<close> is evaluated and raises when
  \<open>files_dict\<close> has no method \<open>keys\<close>.
\<close>

definition parse_body :: "(pystr \<Rightarrow> exn + json) \<Rightarrow> pystr \<Rightarrow> pystr \<Rightarrow> exn + AnalysisResult" where
  "parse_body loads response_text description =
    (case loads (clean_response response_text) of
       Inl e \<Rightarrow> Inl e
     | Inr data \<Rightarrow>
    (case py_get data (str ''analysis_summary'')
            (JStr (str ''Generated application based on: '' @ description)) of
       Inl e \<Rightarrow> Inl e
     | Inr summary_val \<Rightarrow>
    (case py_get data (str ''generated_files'') (JDict []) of
       Inl e \<Rightarrow> Inl e
     | Inr files_dict \<Rightarrow>
    (case py_keys files_dict of
       Inl e \<Rightarrow> Inl e
     | Inr logged \<Rightarrow>
    (case py_items files_dict of
       Inl e \<Rightarrow> Inl e
     | Inr items \<Rightarrow>
       (let normalized_files = copy_items [] items;
            react_file = find_react_file (keys normalized_files)
        in case map_react_file react_file normalized_files of
             Inl e \<Rightarrow> Inl e
           | Inr normalized_files \<Rightarrow>
               Inr \<lparr>summary = summary_val,
                    files = add_placeholders (ensure_app_jsx normalized_files) critical_files\<rparr>))))))"

text \<open>
  The whole function with its two handlers: a \<open>JSONDecodeError\<close> and any other
  exception are both raised again as a \<open>ValueError\<close>, with different messages.
\<close>

definition parse_response :: "(pystr \<Rightarrow> exn + json) \<Rightarrow> pystr \<Rightarrow> pystr \<Rightarrow> exn + AnalysisResult" where
  "parse_response loads response_text description =
    (case parse_body loads response_text description of
       Inl (JSONDecodeError m) \<Rightarrow> Inl (ValueError (str ''Invalid JSON response from AI: '' @ m))
     | Inl e \<Rightarrow> Inl (ValueError (str ''Failed to parse AI response: '' @ exn_str e))
     | Inr result \<Rightarrow> Inr result)"

section \<open>The normalizer with its instance and its log\<close>

text \<open>
  \<open>_parse_response\<close> is a method: it is given the service instance \<open>self\<close>, whose two
  attributes \<open>__init__\<close> sets, and it writes to the module's \<open>logger\<close>. Here the function is
  written once more with both: the instance as an argument, and the log as the list of
  the records handed to the logger so far, oldest first, which every logging call
  extends. The type of the library's client object is left open.
\<close>

record 'client AIService =
  client :: 'client
  model_name :: pystr

datatype level = INFO | WARNING | ERROR

type_synonym log_record = "level \<times> pystr"

text \<open>The remap, with its line \<open>logger.info(f"Mapped {react_file_key} to App.jsx")\<close>.\<close>

definition map_react_file_logged ::
    "pystr option \<Rightarrow> dict \<Rightarrow> log_record list \<Rightarrow> (exn + dict) \<times> log_record list" where
  "map_react_file_logged react_file normalized_files records =
    (case react_file of
       None \<Rightarrow> (Inr normalized_files, records)
     | Some react_file_key \<Rightarrow>
         if react_file_key \<noteq> str ''App.jsx'' then
           if \<not> contains normalized_files (str ''App.jsx'') then
             (case map_of normalized_files react_file_key of
                None \<Rightarrow> (Inl (KeyError (quoted react_file_key)), records)
              | Some content \<Rightarrow>
                  (Inr (setitem normalized_files (str ''App.jsx'') content),
                   records @ [(INFO, str ''Mapped '' @ react_file_key @ str '' to App.jsx'')]))
           else (Inr normalized_files, records)
         else (Inr normalized_files, records))"

text \<open>The placeholder for \<open>App.jsx\<close> and the loop over \<open>critical_files\<close>, with their warnings.\<close>

definition ensure_app_jsx_logged :: "dict \<Rightarrow> log_record list \<Rightarrow> dict \<times> log_record list" where
  "ensure_app_jsx_logged normalized_files records =
    (if \<not> contains normalized_files (str ''App.jsx'')
     then (setitem normalized_files (str ''App.jsx'') (JStr app_jsx_placeholder),
           records @ [(WARNING, str ''App.jsx not found in AI response, adding placeholder'')])
     else (normalized_files, records))"

fun add_placeholders_logged ::
    "dict \<Rightarrow> (pystr \<times> pystr) list \<Rightarrow> log_record list \<Rightarrow> dict \<times> log_record list" where
  "add_placeholders_logged normalized_files [] records = (normalized_files, records)"
| "add_placeholders_logged normalized_files ((file_name, placeholder) # rest) records =
     (if \<not> contains normalized_files file_name
      then add_placeholders_logged (setitem normalized_files file_name (JStr placeholder)) rest
             (records @ [(WARNING, file_name @ str '' not found in AI response, adding placeholder'')])
      else add_placeholders_logged normalized_files rest records)"

text \<open>
  The body of the \<open>try\<close> block. Two log lines format a list of keys with \<open>str\<close>; that
  library function is the parameter \<open>list_str\<close>.
\<close>

definition parse_body_logged ::
    "(pystr \<Rightarrow> exn + json) \<Rightarrow> (pystr list \<Rightarrow> pystr) \<Rightarrow> 'client AIService \<Rightarrow> log_record list \<Rightarrow>
     pystr \<Rightarrow> pystr \<Rightarrow> (exn + AnalysisResult) \<times> log_record list" where
  "parse_body_logged loads list_str self records response_text description =
    (let cleaned_text = clean_response response_text;
         records = records @
           [(INFO, str ''Parsing AI response (first 500 chars): '' @ take 500 cleaned_text)]
     in
    (case loads cleaned_text of
       Inl e \<Rightarrow> (Inl e, records)
     | Inr data \<Rightarrow>
    (case py_get data (str ''analysis_summary'')
            (JStr (str ''Generated application based on: '' @ description)) of
       Inl e \<Rightarrow> (Inl e, records)
     | Inr summary_val \<Rightarrow>
    (case py_get data (str ''generated_files'') (JDict []) of
       Inl e \<Rightarrow> (Inl e, records)
     | Inr files_dict \<Rightarrow>
    (case py_keys files_dict of
       Inl e \<Rightarrow> (Inl e, records)
     | Inr received \<Rightarrow>
    (let records = records @ [(INFO, str ''Files received from AI: '' @ list_str received)]
     in
    (case py_items files_dict of
       Inl e \<Rightarrow> (Inl e, records)
     | Inr items \<Rightarrow>
       (let normalized_files = copy_items [] items;
            react_file = find_react_file (keys normalized_files)
        in case map_react_file_logged react_file normalized_files records of
             (Inl e, records) \<Rightarrow> (Inl e, records)
           | (Inr normalized_files, records) \<Rightarrow>
               (let (normalized_files, records) = ensure_app_jsx_logged normalized_files records;
                    (normalized_files, records) =
                      add_placeholders_logged normalized_files critical_files records;
                    records = records @
                      [(INFO, str ''Final files to return: '' @ list_str (keys normalized_files))]
                in (Inr \<lparr>summary = summary_val, files = normalized_files\<rparr>, records))))))))))"

text \<open>The two handlers: each logs two errors and raises \<open>ValueError\<close>.\<close>

definition parse_response_logged ::
    "(pystr \<Rightarrow> exn + json) \<Rightarrow> (pystr list \<Rightarrow> pystr) \<Rightarrow> 'client AIService \<Rightarrow> log_record list \<Rightarrow>
     pystr \<Rightarrow> pystr \<Rightarrow> (exn + AnalysisResult) \<times> log_record list" where
  "parse_response_logged loads list_str self records response_text description =
    (case parse_body_logged loads list_str self records response_text description of
       (Inl (JSONDecodeError m), records) \<Rightarrow>
         (Inl (ValueError (str ''Invalid JSON response from AI: '' @ m)),
          records @
            [(ERROR, str ''Failed to parse JSON response: '' @ m),
             (ERROR, str ''Response text (first 1000 chars): '' @ take 1000 response_text)])
     | (Inl e, records) \<Rightarrow>
         (Inl (ValueError (str ''Failed to parse AI response: '' @ exn_str e)),
          records @
            [(ERROR, str ''Error parsing response: '' @ exn_str e),
             (ERROR, str ''Response text (first 1000 chars): '' @ take 1000 response_text)])
     | (Inr result, records) \<Rightarrow> (Inr result, records))"

text \<open>
  The file mapping a decoded object gives the normalizer: its member \<open>generated_files\<close>
  when that is an object, the empty mapping when there is no such member, and none
  when the member is any other value.
\<close>

definition given_files :: "dict \<Rightarrow> dict option" where
  "given_files m =
    (case map_of m (str ''generated_files'') of
       None \<Rightarrow> Some []
     | Some (JDict fs) \<Rightarrow> Some fs
     | Some other \<Rightarrow> None)"

text \<open>The names the scan accepts other than the canonical \<open>App.jsx\<close>.\<close>

definition variant_names :: "pystr list" where
  "variant_names = [str ''App.tsx'', str ''app.jsx'', str ''app.tsx'', str ''App.js'', str ''app.js'']"

text \<open>
  What every text that \<open>json.loads\<close> accepts satisfies, once stripped: it is not empty,
  it begins with a character that begins a JSON value (a quote, a bracket, a brace, a
  minus sign, a digit, or the first letter of \<open>true\<close>, \<open>false\<close>, \<open>null\<close>, \<open>NaN\<close>,
  \<open>Infinity\<close>) and it ends with a character that ends one.
\<close>

definition json_first :: "nat \<Rightarrow> bool" where
  "json_first c \<longleftrightarrow> c \<in> set (str ''{[-0123456789tfnNI'') \<or> c = 34"

definition json_last :: "nat \<Rightarrow> bool" where
  "json_last c \<longleftrightarrow> c \<in> set (str ''}]0123456789elNy'') \<or> c = 34"

definition json_shaped :: "pystr \<Rightarrow> bool" where
  "json_shaped t \<longleftrightarrow> strip t \<noteq> [] \<and> json_first (hd (strip t)) \<and> json_last (last (strip t))"

section \<open>A decoder for a fragment of JSON\<close>

text \<open>
  The normalizer is stated for any decoder \<open>loads\<close>. To run it on concrete texts, here
  is a decoder for the JSON texts built from objects, arrays, strings with the
  one-letter escapes, integers, \<open>true\<close>, \<open>false\<close> and \<open>null\<close>, on which it returns what
  \<open>json.loads\<close> returns: an object keeps the first position and the last value of a
  repeated key. Numbers with a fraction or an exponent, escapes by code point, \<open>NaN\<close> and
  \<open>Infinity\<close> are outside the fragment. The first argument of the three parsing
  functions bounds the depth of the recursion; \<open>json_decode\<close> starts with more than the
  length of the text.
\<close>

definition json_ws :: "nat \<Rightarrow> bool" where
  "json_ws c \<longleftrightarrow> c = 32 \<or> c = 9 \<or> c = 10 \<or> c = 13"

definition unescape :: "nat \<Rightarrow> nat option" where
  "unescape c =
    (if c = 34 \<or> c = 92 \<or> c = 47 then Some c
     else if c = 98 then Some 8
     else if c = 102 then Some 12
     else if c = 110 then Some 10
     else if c = 114 then Some 13
     else if c = 116 then Some 9
     else None)"

fun scan_string :: "pystr \<Rightarrow> pystr \<Rightarrow> (pystr \<times> pystr) option" where
  "scan_string acc [] = None"
| "scan_string acc [c] = (if c = 34 then Some (acc, []) else None)"
| "scan_string acc (c # e # cs) =
    (if c = 34 then Some (acc, e # cs)
     else if c = 92 then (case unescape e of None \<Rightarrow> None | Some u \<Rightarrow> scan_string (acc @ [u]) cs)
     else if c < 32 then None
     else scan_string (acc @ [c]) (e # cs))"

definition is_digit :: "nat \<Rightarrow> bool" where
  "is_digit c \<longleftrightarrow> 48 \<le> c \<and> c \<le> 57"

definition digits_value :: "pystr \<Rightarrow> int" where
  "digits_value ds = foldl (\<lambda>n d. 10 * n + int (d - 48)) 0 ds"

definition scan_number :: "pystr \<Rightarrow> (json \<times> pystr) option" where
  "scan_number t =
    (let negative = (t \<noteq> [] \<and> hd t = 45);
         body = (if negative then tl t else t);
         ds = (if body \<noteq> [] \<and> hd body = 48 then [48] else takeWhile is_digit body);
         rest = drop (length ds) body
     in if ds = [] \<or> (rest \<noteq> [] \<and> hd rest \<in> {46, 69, 101}) then None
        else Some (JInt (if negative then - digits_value ds else digits_value ds), rest))"

fun parse_value :: "nat \<Rightarrow> pystr \<Rightarrow> (json \<times> pystr) option"
  and parse_members :: "nat \<Rightarrow> dict \<Rightarrow> pystr \<Rightarrow> (json \<times> pystr) option"
  and parse_elements :: "nat \<Rightarrow> json list \<Rightarrow> pystr \<Rightarrow> (json \<times> pystr) option" where
  "parse_value 0 t = None"
| "parse_value (Suc n) t =
    (case dropWhile json_ws t of
       [] \<Rightarrow> None
     | c # cs \<Rightarrow>
        if c = 34 then map_option (\<lambda>(s, r). (JStr s, r)) (scan_string [] cs)
        else if c = 123 then
          (case dropWhile json_ws cs of
             [] \<Rightarrow> None
           | c' # r \<Rightarrow> if c' = 125 then Some (JDict [], r) else parse_members n [] cs)
        else if c = 91 then
          (case dropWhile json_ws cs of
             [] \<Rightarrow> None
           | c' # r \<Rightarrow> if c' = 93 then Some (JList [], r) else parse_elements n [] cs)
        else if startswith (c # cs) (str ''true'') then Some (JBool True, drop 4 (c # cs))
        else if startswith (c # cs) (str ''false'') then Some (JBool False, drop 5 (c # cs))
        else if startswith (c # cs) (str ''null'') then Some (JNull, drop 4 (c # cs))
        else scan_number (c # cs))"
| "parse_members 0 d t = None"
| "parse_members (Suc n) d t =
    (case dropWhile json_ws t of
       [] \<Rightarrow> None
     | q # cs \<Rightarrow>
        if q \<noteq> 34 then None
        else (case scan_string [] cs of
                None \<Rightarrow> None
              | Some (k, r) \<Rightarrow>
                 (case dropWhile json_ws r of
                    [] \<Rightarrow> None
                  | colon # r' \<Rightarrow>
                     if colon \<noteq> 58 then None
                     else (case parse_value n r' of
                             None \<Rightarrow> None
                           | Some (v, r'') \<Rightarrow>
                              (case dropWhile json_ws r'' of
                                 [] \<Rightarrow> None
                               | sep # r3 \<Rightarrow>
                                  if sep = 44 then parse_members n (setitem d k v) r3
                                  else if sep = 125 then Some (JDict (setitem d k v), r3)
                                  else None)))))"
| "parse_elements 0 xs t = None"
| "parse_elements (Suc n) xs t =
    (case parse_value n t of
       None \<Rightarrow> None
     | Some (v, r) \<Rightarrow>
        (case dropWhile json_ws r of
           [] \<Rightarrow> None
         | sep # r' \<Rightarrow>
            if sep = 44 then parse_elements n (xs @ [v]) r'
            else if sep = 93 then Some (JList (xs @ [v]), r')
            else None))"

definition json_decode :: "pystr \<Rightarrow> json option" where
  "json_decode t =
    (case parse_value (Suc (length t)) t of
       None \<Rightarrow> None
     | Some (v, r) \<Rightarrow> if dropWhile json_ws r = [] then Some v else None)"

text \<open>
  \<open>json_loads\<close> stands for \<open>json.loads\<close> where the normalizer is run on a concrete text.
  On a text of the fragment it returns the decoded value, and on the empty text it raises
  \<open>JSONDecodeError\<close> with the message \<open>json.loads\<close> gives there. It is applied to no
  other text below; for those the definition gives the same error, which need not be the
  outcome of \<open>json.loads\<close>.
\<close>

definition json_loads :: "pystr \<Rightarrow> exn + json" where
  "json_loads t =
    (case json_decode t of
       Some v \<Rightarrow> Inr v
     | None \<Rightarrow> Inl (JSONDecodeError (str ''Expecting value: line 1 column 1 (char 0)'')))"

section \<open>The example catalog: \<open>ExampleService\<close>\<close>

text \<open>
  The file contents of the three examples are long literals; \<open>text_lines\<close> writes one as
  the list of its lines, each ended by a newline (code point 10). Where a line has an
  apostrophe at its end or a character outside ASCII, those code points are written as
  numbers.
\<close>

definition text_lines :: "string list \<Rightarrow> pystr" where
  "text_lines ls = concat (map (\<lambda>l. str l @ [10]) ls)"

definition food_pantry_summary :: pystr where
  \<open>food_pantry_summary = str
    (''A Food Pantry Management System for tracking inventory, donations, and distributions. '' @
     ''The system helps organizations manage their food bank operations efficiently with '' @
     ''features for item tracking, donor management, and distribution records.'')\<close>

definition food_pantry_models_py :: pystr where
  \<open>food_pantry_models_py =
    text_lines
      [''from sqlalchemy import Column, Integer, String, Float, DateTime, ForeignKey, Text'',
       ''from sqlalchemy.ext.declarative import declarative_base'',
       ''from sqlalchemy.orm import relationship'',
       ''from datetime import datetime'',
       '''',
       ''Base = declarative_base()'',
       '''',
       '''',
       ''class Donor(Base):'',
       ''    __tablename__ = "donors"'',
       ''    '',
       ''    id = Column(Integer, primary_key=True, index=True)'',
       ''    name = Column(String(100), nullable=False)'',
       ''    email = Column(String(100), unique=True, index=True)'',
       ''    phone = Column(String(20))'',
       ''    address = Column(Text)'',
       ''    created_at = Column(DateTime, default=datetime.utcnow)'',
       ''    '',
       ''    donations = relationship("Donation", back_populates="donor")'',
       '''',
       '''',
       ''class Item(Base):'',
       ''    __tablename__ = "items"'',
       ''    '',
       ''    id = Column(Integer, primary_key=True, index=True)'',
       ''    name = Column(String(100), nullable=False)'',
       ''    category = Column(String(50))'',
       ''    quantity = Column(Integer, default=0)'',
       ''    unit = Column(String(20), default="units")'',
       ''    expiry_date = Column(DateTime)'',
       ''    created_at = Column(DateTime, default=datetime.utcnow)'',
       ''    '',
       ''    donations = relationship("Donation", back_populates="item")'',
       ''    distributions = relationship("DistributionItem", back_populates="item")'',
       '''',
       '''',
       ''class Donation(Base):'',
       ''    __tablename__ = "donations"'',
       ''    '',
       ''    id = Column(Integer, primary_key=True, index=True)'',
       ''    donor_id = Column(Integer, ForeignKey("donors.id"))'',
       ''    item_id = Column(Integer, ForeignKey("items.id"))'',
       ''    quantity = Column(Integer, nullable=False)'',
       ''    donation_date = Column(DateTime, default=datetime.utcnow)'',
       ''    notes = Column(Text)'',
       ''    '',
       ''    donor = relationship("Donor", back_populates="donations")'',
       ''    item = relationship("Item", back_populates="donations")'',
       '''',
       '''',
       ''class Distribution(Base):'',
       ''    __tablename__ = "distributions"'',
       ''    '',
       ''    id = Column(Integer, primary_key=True, index=True)'',
       ''    recipient_name = Column(String(100), nullable=False)'',
       ''    recipient_contact = Column(String(100))'',
       ''    distribution_date = Column(DateTime, default=datetime.utcnow)'',
       ''    notes = Column(Text)'',
       ''    '',
       ''    items = relationship("DistributionItem", back_populates="distribution")'',
       '''',
       '''',
       ''class DistributionItem(Base):'',
       ''    __tablename__ = "distribution_items"'',
       ''    '',
       ''    id = Column(Integer, primary_key=True, index=True)'',
       ''    distribution_id = Column(Integer, ForeignKey("distributions.id"))'',
       ''    item_id = Column(Integer, ForeignKey("items.id"))'',
       ''    quantity = Column(Integer, nullable=False)'',
       ''    '',
       ''    distribution = relationship("Distribution", back_populates="items")'',
       ''    item = relationship("Item", back_populates="distributions")'']\<close>

definition food_pantry_main_py :: pystr where
  \<open>food_pantry_main_py =
    text_lines
      [''from fastapi import FastAPI, HTTPException, Depends'',
       ''from fastapi.middleware.cors import CORSMiddleware'',
       ''from sqlalchemy.orm import Session'',
       ''from typing import List'',
       ''from datetime import datetime'',
       '''',
       ''from app.models.domain import Donor, Item, Donation, Distribution, DistributionItem'',
       ''from app.database import get_db'',
       '''',
       ''app = FastAPI(title="Food Pantry Management API", version="1.0.0")'',
       '''',
       ''# CORS middleware'',
       ''app.add_middleware('',
       ''    CORSMiddleware,'',
       ''    allow_origins=["*"],'',
       ''    allow_credentials=True,'',
       ''    allow_methods=["*"],'',
       ''    allow_headers=["*"],'',
       '')'',
       '''',
       '''',
       ''# Donor endpoints'',
       ''@app.get("/api/donors", response_model=List[dict])'',
       ''def get_donors(skip: int = 0, limit: int = 100, db: Session = Depends(get_db)):'',
       ''    donors = db.query(Donor).offset(skip).limit(limit).all()'',
       ''    return [{"id": d.id, "name": d.name, "email": d.email, "phone": d.phone} for d in donors]'',
       '''',
       '''',
       ''@app.post("/api/donors")'',
       ''def create_donor(donor_data: dict, db: Session = Depends(get_db)):'',
       ''    donor = Donor(**donor_data)'',
       ''    db.add(donor)'',
       ''    db.commit()'',
       ''    db.refresh(donor)'',
       ''    return {"id": donor.id, "name": donor.name, "email": donor.email}'',
       '''',
       '''',
       ''@app.get("/api/donors/{donor_id}")'',
       ''def get_donor(donor_id: int, db: Session = Depends(get_db)):'',
       ''    donor = db.query(Donor).filter(Donor.id == donor_id).first()'',
       ''    if not donor:'',
       ''        raise HTTPException(status_code=404, detail="Donor not found")'',
       ''    return {"id": donor.id, "name": donor.name, "email": donor.email, "phone": donor.phone}'',
       '''',
       '''',
       ''@app.put("/api/donors/{donor_id}")'',
       ''def update_donor(donor_id: int, donor_data: dict, db: Session = Depends(get_db)):'',
       ''    donor = db.query(Donor).filter(Donor.id == donor_id).first()'',
       ''    if not donor:'',
       ''        raise HTTPException(status_code=404, detail="Donor not found")'',
       ''    for key, value in donor_data.items():'',
       ''        setattr(donor, key, value)'',
       ''    db.commit()'',
       ''    return {"id": donor.id, "name": donor.name, "email": donor.email}'',
       '''',
       '''',
       ''@app.delete("/api/donors/{donor_id}")'',
       ''def delete_donor(donor_id: int, db: Session = Depends(get_db)):'',
       ''    donor = db.query(Donor).filter(Donor.id == donor_id).first()'',
       ''    if not donor:'',
       ''        raise HTTPException(status_code=404, detail="Donor not found")'',
       ''    db.delete(donor)'',
       ''    db.commit()'',
       ''    return {"message": "Donor deleted successfully"}'',
       '''',
       '''',
       ''# Item endpoints'',
       ''@app.get("/api/items", response_model=List[dict])'',
       ''def get_items(skip: int = 0, limit: int = 100, db: Session = Depends(get_db)):'',
       ''    items = db.query(Item).offset(skip).limit(limit).all()'',
       ''    return [{"id": i.id, "name": i.name, "category": i.category, "quantity": i.quantity} for i in items]'',
       '''',
       '''',
       ''@app.post("/api/items")'',
       ''def create_item(item_data: dict, db: Session = Depends(get_db)):'',
       ''    item = Item(**item_data)'',
       ''    db.add(item)'',
       ''    db.commit()'',
       ''    db.refresh(item)'',
       ''    return {"id": item.id, "name": item.name, "quantity": item.quantity}'',
       '''',
       '''',
       ''@app.get("/api/items/{item_id}")'',
       ''def get_item(item_id: int, db: Session = Depends(get_db)):'',
       ''    item = db.query(Item).filter(Item.id == item_id).first()'',
       ''    if not item:'',
       ''        raise HTTPException(status_code=404, detail="Item not found")'',
       ''    return {"id": item.id, "name": item.name, "category": item.category, "quantity": item.quantity}'',
       '''',
       '''',
       ''@app.put("/api/items/{item_id}")'',
       ''def update_item(item_id: int, item_data: dict, db: Session = Depends(get_db)):'',
       ''    item = db.query(Item).filter(Item.id == item_id).first()'',
       ''    if not item:'',
       ''        raise HTTPException(status_code=404, detail="Item not found")'',
       ''    for key, value in item_data.items():'',
       ''        setattr(item, key, value)'',
       ''    db.commit()'',
       ''    return {"id": item.id, "name": item.name, "quantity": item.quantity}'',
       '''',
       '''',
       ''@app.delete("/api/items/{item_id}")'',
       ''def delete_item(item_id: int, db: Session = Depends(get_db)):'',
       ''    item = db.query(Item).filter(Item.id == item_id).first()'',
       ''    if not item:'',
       ''        raise HTTPException(status_code=404, detail="Item not found")'',
       ''    db.delete(item)'',
       ''    db.commit()'',
       ''    return {"message": "Item deleted successfully"}'',
       '''',
       '''',
       ''# Donation endpoints'',
       ''@app.post("/api/donations")'',
       ''def create_donation(donation_data: dict, db: Session = Depends(get_db)):'',
       ''    donation = Donation(**donation_data)'',
       ''    db.add(donation)'',
       ''    db.commit()'',
       ''    db.refresh(donation)'',
       ''    return {"id": donation.id, "donor_id": donation.donor_id, "item_id": donation.item_id}'',
       '''',
       '''',
       ''@app.get("/api/donations", response_model=List[dict])'',
       ''def get_donations(skip: int = 0, limit: int = 100, db: Session = Depends(get_db)):'',
       ''    donations = db.query(Donation).offset(skip).limit(limit).all()'',
       ''    return [{"id": d.id, "donor_id": d.donor_id, "item_id": d.item_id, "quantity": d.quantity} for d in donations]'']\<close>

definition food_pantry_App_jsx :: pystr where
  \<open>food_pantry_App_jsx =
    text_lines
      [''import React, { useState } from 'react';'',
       ''import { PlusIcon, TrashIcon, PencilIcon } from 'lucide-react';'',
       '''',
       ''function App() {'',
       ''  const [donors, setDonors] = useState([]);'',
       ''  const [items, setItems] = useState([]);'',
       ''  const [donations, setDonations] = useState([]);'',
       ''  const [activeTab, setActiveTab] = useState('donors');'',
       ''  const [showModal, setShowModal] = useState(false);'',
       ''  const [formData, setFormData] = useState({});'',
       '''',
       ''  const handleSubmit = async (e) => {'',
       ''    e.preventDefault();'',
       ''    const endpoint = activeTab === 'donors' ? '/api/donors' : '',
       ''                     activeTab === 'items' ? '/api/items' : '/api/donations';'',
       ''    '',
       ''    try {'',
       ''      const response = await fetch(endpoint, {'',
       ''        method: 'POST','',
       ''        headers: { 'Content-Type': 'application/json' },'',
       ''        body: JSON.stringify(formData)'',
       ''      });'',
       ''      const data = await response.json();'',
       ''      if (activeTab === 'donors') setDonors([...donors, data]);'',
       ''      else if (activeTab === 'items') setItems([...items, data]);'',
       ''      else setDonations([...donations, data]);'',
       ''      setShowModal(false);'',
       ''      setFormData({});'',
       ''    } catch (error) {'',
       ''      console.error('Error:', error);'',
       ''    }'',
       ''  };'',
       '''',
       ''  return ('',
       ''    <div className="min-h-screen bg-gradient-to-br from-blue-50 to-indigo-100">'',
       ''      <div className="container mx-auto px-4 py-8">'',
       ''        <h1 className="text-4xl font-bold text-gray-800 mb-8 text-center">''] @
    (str ''          '' @ [240, 376, 165, 171] @ str '' Food Pantry Management System'' @ [10]) @
    text_lines
      [''        </h1>'',
       ''        '',
       ''        {/* Tabs */}'',
       ''        <div className="flex space-x-4 mb-6 border-b border-gray-300">'',
       ''          {['donors', 'items', 'donations'].map(tab => ('',
       ''            <button'',
       ''              key={tab}'',
       ''              onClick={() => setActiveTab(tab)}'',
       ''              className={`px-6 py-3 font-semibold capitalize transition-colors ${'',
       ''                activeTab === tab''] @
    (str ''                  ? '' @ [39] @ str ''border-b-2 border-indigo-600 text-indigo-600'' @ [39] @ [10]) @
    (str ''                  : '' @ [39] @ str ''text-gray-600 hover:text-indigo-600'' @ [39] @ [10]) @
    text_lines
      [''              }`}'',
       ''            >'',
       ''              {tab}'',
       ''            </button>'',
       ''          ))}'',
       ''        </div>'',
       '''',
       ''        {/* Content */}'',
       ''        <div className="bg-white rounded-lg shadow-lg p-6">'',
       ''          <div className="flex justify-between items-center mb-4">'',
       ''            <h2 className="text-2xl font-semibold text-gray-800 capitalize">{activeTab}</h2>'',
       ''            <button'',
       ''              onClick={() => setShowModal(true)}'',
       ''              className="bg-indigo-600 text-white px-4 py-2 rounded-lg hover:bg-indigo-700 flex items-center gap-2"'',
       ''            >'',
       ''              <PlusIcon size={20} />'',
       ''              Add New'',
       ''            </button>'',
       ''          </div>'',
       '''',
       ''          {/* Table */}'',
       ''          <div className="overflow-x-auto">'',
       ''            <table className="w-full border-collapse">'',
       ''              <thead>'',
       ''                <tr className="bg-gray-100">'',
       ''                  <th className="border p-3 text-left">ID</th>'',
       ''                  <th className="border p-3 text-left">Name</th>'',
       ''                  {activeTab === 'donors' && <th className="border p-3 text-left">Email</th>}'',
       ''                  {activeTab === 'items' && <th className="border p-3 text-left">Category</th>}'',
       ''                  {activeTab === 'items' && <th className="border p-3 text-left">Quantity</th>}'',
       ''                  <th className="border p-3 text-left">Actions</th>'',
       ''                </tr>'',
       ''              </thead>'',
       ''              <tbody>'',
       ''                {(activeTab === 'donors' ? donors : activeTab === 'items' ? items : donations).map((item) => ('',
       ''                  <tr key={item.id} className="hover:bg-gray-50">'',
       ''                    <td className="border p-3">{item.id}</td>'',
       ''                    <td className="border p-3">{item.name}</td>'',
       ''                    {activeTab === 'donors' && <td className="border p-3">{item.email}</td>}'',
       ''                    {activeTab === 'items' && <td className="border p-3">{item.category}</td>}'',
       ''                    {activeTab === 'items' && <td className="border p-3">{item.quantity}</td>}'',
       ''                    <td className="border p-3">'',
       ''                      <div className="flex gap-2">'',
       ''                        <button className="text-blue-600 hover:text-blue-800">'',
       ''                          <PencilIcon size={18} />'',
       ''                        </button>'',
       ''                        <button className="text-red-600 hover:text-red-800">'',
       ''                          <TrashIcon size={18} />'',
       ''                        </button>'',
       ''                      </div>'',
       ''                    </td>'',
       ''                  </tr>'',
       ''                ))}'',
       ''              </tbody>'',
       ''            </table>'',
       ''          </div>'',
       ''        </div>'',
       '''',
       ''        {/* Modal */}'',
       ''        {showModal && ('',
       ''          <div className="fixed inset-0 bg-black bg-opacity-50 flex items-center justify-center z-50">'',
       ''            <div className="bg-white rounded-lg p-6 w-96">'',
       ''              <h3 className="text-xl font-semibold mb-4">Add New {activeTab.slice(0, -1)}</h3>'',
       ''              <form onSubmit={handleSubmit}>'',
       ''                {activeTab === 'donors' && ('',
       ''                  <>'',
       ''                    <input'',
       ''                      type="text"'',
       ''                      placeholder="Name"'',
       ''                      className="w-full p-2 border rounded mb-2"'',
       ''                      onChange={(e) => setFormData({...formData, name: e.target.value})}'',
       ''                    />'',
       ''                    <input'',
       ''                      type="email"'',
       ''                      placeholder="Email"'',
       ''                      className="w-full p-2 border rounded mb-2"'',
       ''                      onChange={(e) => setFormData({...formData, email: e.target.value})}'',
       ''                    />'',
       ''                  </>'',
       ''                )}'',
       ''                {activeTab === 'items' && ('',
       ''                  <>'',
       ''                    <input'',
       ''                      type="text"'',
       ''                      placeholder="Name"'',
       ''                      className="w-full p-2 border rounded mb-2"'',
       ''                      onChange={(e) => setFormData({...formData, name: e.target.value})}'',
       ''                    />'',
       ''                    <input'',
       ''                      type="text"'',
       ''                      placeholder="Category"'',
       ''                      className="w-full p-2 border rounded mb-2"'',
       ''                      onChange={(e) => setFormData({...formData, category: e.target.value})}'',
       ''                    />'',
       ''                    <input'',
       ''                      type="number"'',
       ''                      placeholder="Quantity"'',
       ''                      className="w-full p-2 border rounded mb-2"'',
       ''                      onChange={(e) => setFormData({...formData, quantity: parseInt(e.target.value)})}'',
       ''                    />'',
       ''                  </>'',
       ''                )}'',
       ''                <div className="flex gap-2 mt-4">'',
       ''                  <button'',
       ''                    type="submit"'',
       ''                    className="flex-1 bg-indigo-600 text-white py-2 rounded hover:bg-indigo-700"'',
       ''                  >'',
       ''                    Save'',
       ''                  </button>'',
       ''                  <button'',
       ''                    type="button"'',
       ''                    onClick={() => setShowModal(false)}'',
       ''                    className="flex-1 bg-gray-300 text-gray-700 py-2 rounded hover:bg-gray-400"'',
       ''                  >'',
       ''                    Cancel'',
       ''                  </button>'',
       ''                </div>'',
       ''              </form>'',
       ''            </div>'',
       ''          </div>'',
       ''        )}'',
       ''      </div>'',
       ''    </div>'',
       ''  );'',
       ''}'',
       '''',
       ''export default App;'']\<close>

definition food_pantry_README_md :: pystr where
  \<open>food_pantry_README_md =
    text_lines
      [''# Food Pantry Management System'',
       '''',
       ''A full-stack application for managing food pantry operations including inventory, donations, and distributions.'',
       '''',
       ''## Features'',
       '''',
       ''- Donor management'',
       ''- Inventory tracking'',
       ''- Donation records'',
       ''- Distribution tracking'',
       '''',
       ''## Setup Instructions'',
       '''',
       ''### Backend Setup'',
       '''',
       ''1. Install dependencies:'',
       ''```bash'',
       ''pip install fastapi uvicorn sqlalchemy python-dotenv google-generativeai'',
       ''```'',
       '''',
       ''2. Set up environment variables:'',
       ''```bash'',
       ''export GEMINI_API_KEY=your_api_key_here'',
       ''```'',
       '''',
       ''3. Initialize database:'',
       ''```bash'',
       ''# Create database and run migrations'',
       ''```'',
       '''',
       ''4. Run the server:'',
       ''```bash'',
       ''uvicorn main:app --reload --port 8000'',
       ''```'',
       '''',
       ''### Frontend Setup'',
       '''',
       ''1. Install dependencies:'',
       ''```bash'',
       ''npm install'',
       ''```'',
       '''',
       ''2. Start development server:'',
       ''```bash'',
       ''npm run dev'',
       ''```'',
       '''',
       ''3. Open browser:'',
       ''```'',
       ''http://localhost:5173'',
       ''```'',
       '''',
       ''## API Endpoints'',
       '''',
       ''- `GET /api/donors` - List all donors'',
       ''- `POST /api/donors` - Create a new donor'',
       ''- `GET /api/items` - List all items'',
       ''- `POST /api/items` - Create a new item'',
       ''- `GET /api/donations` - List all donations'',
       ''- `POST /api/donations` - Create a new donation'',
       '''',
       ''## Deployment'',
       '''',
       ''### Backend (Render/Railway)'',
       ''1. Set environment variables'',
       ''2. Deploy FastAPI application'',
       ''3. Configure database'',
       '''',
       ''### Frontend (Vercel)'',
       ''1. Connect GitHub repository'',
       ''2. Set build command: `npm run build`'',
       ''3. Deploy'']\<close>

definition library_summary :: pystr where
  \<open>library_summary = str
    (''A Library Book Tracking System for managing books, members, and loans. The system '' @
     ''enables librarians to track book inventory, manage member registrations, and handle book '' @
     ''checkouts and returns efficiently.'')\<close>

definition library_models_py :: pystr where
  \<open>library_models_py =
    text_lines
      [''from sqlalchemy import Column, Integer, String, DateTime, ForeignKey, Boolean'',
       ''from sqlalchemy.ext.declarative import declarative_base'',
       ''from sqlalchemy.orm import relationship'',
       ''from datetime import datetime'',
       '''',
       ''Base = declarative_base()'',
       '''',
       '''',
       ''class Book(Base):'',
       ''    __tablename__ = "books"'',
       ''    '',
       ''    id = Column(Integer, primary_key=True, index=True)'',
       ''    title = Column(String(200), nullable=False)'',
       ''    author = Column(String(100), nullable=False)'',
       ''    isbn = Column(String(20), unique=True, index=True)'',
       ''    category = Column(String(50))'',
       ''    available = Column(Boolean, default=True)'',
       ''    created_at = Column(DateTime, default=datetime.utcnow)'',
       ''    '',
       ''    loans = relationship("Loan", back_populates="book")'',
       '''',
       '''',
       ''class Member(Base):'',
       ''    __tablename__ = "members"'',
       ''    '',
       ''    id = Column(Integer, primary_key=True, index=True)'',
       ''    name = Column(String(100), nullable=False)'',
       ''    email = Column(String(100), unique=True, index=True)'',
       ''    phone = Column(String(20))'',
       ''    membership_date = Column(DateTime, default=datetime.utcnow)'',
       ''    '',
       ''    loans = relationship("Loan", back_populates="member")'',
       '''',
       '''',
       ''class Loan(Base):'',
       ''    __tablename__ = "loans"'',
       ''    '',
       ''    id = Column(Integer, primary_key=True, index=True)'',
       ''    book_id = Column(Integer, ForeignKey("books.id"))'',
       ''    member_id = Column(Integer, ForeignKey("members.id"))'',
       ''    loan_date = Column(DateTime, default=datetime.utcnow)'',
       ''    return_date = Column(DateTime, nullable=True)'',
       ''    due_date = Column(DateTime)'',
       ''    '',
       ''    book = relationship("Book", back_populates="loans")'',
       ''    member = relationship("Member", back_populates="loans")'']\<close>

definition library_main_py :: pystr where
  \<open>library_main_py =
    text_lines
      [''from fastapi import FastAPI, HTTPException, Depends'',
       ''from fastapi.middleware.cors import CORSMiddleware'',
       ''from sqlalchemy.orm import Session'',
       ''from typing import List'',
       ''from datetime import datetime, timedelta'',
       '''',
       ''from app.models.domain import Book, Member, Loan'',
       ''from app.database import get_db'',
       '''',
       ''app = FastAPI(title="Library Management API", version="1.0.0")'',
       '''',
       ''app.add_middleware('',
       ''    CORSMiddleware,'',
       ''    allow_origins=["*"],'',
       ''    allow_credentials=True,'',
       ''    allow_methods=["*"],'',
       ''    allow_headers=["*"],'',
       '')'',
       '''',
       '''',
       ''@app.get("/api/books", response_model=List[dict])'',
       ''def get_books(skip: int = 0, limit: int = 100, db: Session = Depends(get_db)):'',
       ''    books = db.query(Book).offset(skip).limit(limit).all()'',
       ''    return [{"id": b.id, "title": b.title, "author": b.author, "isbn": b.isbn, "available": b.available} for b in books]'',
       '''',
       '''',
       ''@app.post("/api/books")'',
       ''def create_book(book_data: dict, db: Session = Depends(get_db)):'',
       ''    book = Book(**book_data)'',
       ''    db.add(book)'',
       ''    db.commit()'',
       ''    db.refresh(book)'',
       ''    return {"id": book.id, "title": book.title, "author": book.author}'',
       '''',
       '''',
       ''@app.get("/api/members", response_model=List[dict])'',
       ''def get_members(skip: int = 0, limit: int = 100, db: Session = Depends(get_db)):'',
       ''    members = db.query(Member).offset(skip).limit(limit).all()'',
       ''    return [{"id": m.id, "name": m.name, "email": m.email, "phone": m.phone} for m in members]'',
       '''',
       '''',
       ''@app.post("/api/members")'',
       ''def create_member(member_data: dict, db: Session = Depends(get_db)):'',
       ''    member = Member(**member_data)'',
       ''    db.add(member)'',
       ''    db.commit()'',
       ''    db.refresh(member)'',
       ''    return {"id": member.id, "name": member.name, "email": member.email}'',
       '''',
       '''',
       ''@app.post("/api/loans")'',
       ''def create_loan(loan_data: dict, db: Session = Depends(get_db)):'',
       ''    book = db.query(Book).filter(Book.id == loan_data["book_id"]).first()'',
       ''    if not book or not book.available:'',
       ''        raise HTTPException(status_code=400, detail="Book not available")'',
       ''    '',
       ''    loan = Loan('',
       ''        book_id=loan_data["book_id"],'',
       ''        member_id=loan_data["member_id"],'',
       ''        due_date=datetime.utcnow() + timedelta(days=14)'',
       ''    )'',
       ''    book.available = False'',
       ''    db.add(loan)'',
       ''    db.commit()'',
       ''    return {"id": loan.id, "book_id": loan.book_id, "member_id": loan.member_id}'',
       '''',
       '''',
       ''@app.get("/api/loans", response_model=List[dict])'',
       ''def get_loans(skip: int = 0, limit: int = 100, db: Session = Depends(get_db)):'',
       ''    loans = db.query(Loan).offset(skip).limit(limit).all()'',
       ''    return [{"id": l.id, "book_id": l.book_id, "member_id": l.member_id, "loan_date": str(l.loan_date)} for l in loans]'']\<close>

definition library_App_jsx :: pystr where
  \<open>library_App_jsx =
    text_lines
      [''import React, { useState } from 'react';'',
       ''import { BookOpen, Users, Calendar } from 'lucide-react';'',
       '''',
       ''function App() {'',
       ''  const [activeTab, setActiveTab] = useState('books');'',
       ''  const [books, setBooks] = useState([]);'',
       ''  const [members, setMembers] = useState([]);'',
       ''  const [loans, setLoans] = useState([]);'',
       '''',
       ''  return ('',
       ''    <div className="min-h-screen bg-gradient-to-br from-green-50 to-emerald-100">'',
       ''      <div className="container mx-auto px-4 py-8">'',
       ''        <h1 className="text-4xl font-bold text-gray-800 mb-8 text-center flex items-center justify-center gap-3">'',
       ''          <BookOpen size={40} />'',
       ''          Library Book Tracking System'',
       ''        </h1>'',
       ''        '',
       ''        <div className="flex space-x-4 mb-6 border-b border-gray-300">'',
       ''          {['',
       ''            { id: 'books', label: 'Books', icon: BookOpen },'',
       ''            { id: 'members', label: 'Members', icon: Users },'',
       ''            { id: 'loans', label: 'Loans', icon: Calendar }'',
       ''          ].map(tab => ('',
       ''            <button'',
       ''              key={tab.id}'',
       ''              onClick={() => setActiveTab(tab.id)}'',
       ''              className={`px-6 py-3 font-semibold flex items-center gap-2 transition-colors ${'',
       ''                activeTab === tab.id''] @
    (str ''                  ? '' @ [39] @ str ''border-b-2 border-emerald-600 text-emerald-600'' @ [39] @ [10]) @
    (str ''                  : '' @ [39] @ str ''text-gray-600 hover:text-emerald-600'' @ [39] @ [10]) @
    text_lines
      [''              }`}'',
       ''            >'',
       ''              <tab.icon size={20} />'',
       ''              {tab.label}'',
       ''            </button>'',
       ''          ))}'',
       ''        </div>'',
       '''',
       ''        <div className="bg-white rounded-lg shadow-lg p-6">'',
       ''          <h2 className="text-2xl font-semibold text-gray-800 mb-4 capitalize">{activeTab}</h2>'',
       ''          <p className="text-gray-600">Manage your library {activeTab} here.</p>'',
       ''        </div>'',
       ''      </div>'',
       ''    </div>'',
       ''  );'',
       ''}'',
       '''',
       ''export default App;'']\<close>

definition library_README_md :: pystr where
  \<open>library_README_md =
    text_lines
      [''# Library Book Tracking System'',
       '''',
       ''A comprehensive library management system for tracking books, members, and loans.'',
       '''',
       ''## Setup'',
       '''',
       ''1. Install backend dependencies: `pip install fastapi uvicorn sqlalchemy`'',
       ''2. Install frontend dependencies: `npm install`'',
       ''3. Run backend: `uvicorn main:app --reload`'',
       ''4. Run frontend: `npm run dev`'']\<close>

definition clinic_summary :: pystr where
  \<open>clinic_summary = str
    (''A Clinic Appointment Management System for scheduling patient appointments, managing '' @
     ''doctor schedules, and tracking medical records. The system helps healthcare facilities '' @
     ''streamline their appointment booking process.'')\<close>

definition clinic_models_py :: pystr where
  \<open>clinic_models_py =
    text_lines
      [''from sqlalchemy import Column, Integer, String, DateTime, ForeignKey, Text'',
       ''from sqlalchemy.ext.declarative import declarative_base'',
       ''from sqlalchemy.orm import relationship'',
       ''from datetime import datetime'',
       '''',
       ''Base = declarative_base()'',
       '''',
       '''',
       ''class Patient(Base):'',
       ''    __tablename__ = "patients"'',
       ''    '',
       ''    id = Column(Integer, primary_key=True, index=True)'',
       ''    name = Column(String(100), nullable=False)'',
       ''    email = Column(String(100), unique=True, index=True)'',
       ''    phone = Column(String(20))'',
       ''    date_of_birth = Column(DateTime)'',
       ''    created_at = Column(DateTime, default=datetime.utcnow)'',
       ''    '',
       ''    appointments = relationship("Appointment", back_populates="patient")'',
       '''',
       '''',
       ''class Doctor(Base):'',
       ''    __tablename__ = "doctors"'',
       ''    '',
       ''    id = Column(Integer, primary_key=True, index=True)'',
       ''    name = Column(String(100), nullable=False)'',
       ''    specialization = Column(String(100))'',
       ''    email = Column(String(100), unique=True, index=True)'',
       ''    '',
       ''    appointments = relationship("Appointment", back_populates="doctor")'',
       '''',
       '''',
       ''class Appointment(Base):'',
       ''    __tablename__ = "appointments"'',
       ''    '',
       ''    id = Column(Integer, primary_key=True, index=True)'',
       ''    patient_id = Column(Integer, ForeignKey("patients.id"))'',
       ''    doctor_id = Column(Integer, ForeignKey("doctors.id"))'',
       ''    appointment_date = Column(DateTime, nullable=False)'',
       ''    status = Column(String(20), default="scheduled")'',
       ''    notes = Column(Text)'',
       ''    created_at = Column(DateTime, default=datetime.utcnow)'',
       ''    '',
       ''    patient = relationship("Patient", back_populates="appointments")'',
       ''    doctor = relationship("Doctor", back_populates="appointments")'']\<close>

definition clinic_main_py :: pystr where
  \<open>clinic_main_py =
    text_lines
      [''from fastapi import FastAPI, HTTPException, Depends'',
       ''from fastapi.middleware.cors import CORSMiddleware'',
       ''from sqlalchemy.orm import Session'',
       ''from typing import List'',
       '''',
       ''from app.models.domain import Patient, Doctor, Appointment'',
       ''from app.database import get_db'',
       '''',
       ''app = FastAPI(title="Clinic Management API", version="1.0.0")'',
       '''',
       ''app.add_middleware('',
       ''    CORSMiddleware,'',
       ''    allow_origins=["*"],'',
       ''    allow_credentials=True,'',
       ''    allow_methods=["*"],'',
       ''    allow_headers=["*"],'',
       '')'',
       '''',
       '''',
       ''@app.get("/api/patients", response_model=List[dict])'',
       ''def get_patients(skip: int = 0, limit: int = 100, db: Session = Depends(get_db)):'',
       ''    patients = db.query(Patient).offset(skip).limit(limit).all()'',
       ''    return [{"id": p.id, "name": p.name, "email": p.email, "phone": p.phone} for p in patients]'',
       '''',
       '''',
       ''@app.post("/api/patients")'',
       ''def create_patient(patient_data: dict, db: Session = Depends(get_db)):'',
       ''    patient = Patient(**patient_data)'',
       ''    db.add(patient)'',
       ''    db.commit()'',
       ''    db.refresh(patient)'',
       ''    return {"id": patient.id, "name": patient.name, "email": patient.email}'',
       '''',
       '''',
       ''@app.get("/api/doctors", response_model=List[dict])'',
       ''def get_doctors(skip: int = 0, limit: int = 100, db: Session = Depends(get_db)):'',
       ''    doctors = db.query(Doctor).offset(skip).limit(limit).all()'',
       ''    return [{"id": d.id, "name": d.name, "specialization": d.specialization, "email": d.email} for d in doctors]'',
       '''',
       '''',
       ''@app.post("/api/doctors")'',
       ''def create_doctor(doctor_data: dict, db: Session = Depends(get_db)):'',
       ''    doctor = Doctor(**doctor_data)'',
       ''    db.add(doctor)'',
       ''    db.commit()'',
       ''    db.refresh(doctor)'',
       ''    return {"id": doctor.id, "name": doctor.name, "specialization": doctor.specialization}'',
       '''',
       '''',
       ''@app.post("/api/appointments")'',
       ''def create_appointment(appointment_data: dict, db: Session = Depends(get_db)):'',
       ''    appointment = Appointment(**appointment_data)'',
       ''    db.add(appointment)'',
       ''    db.commit()'',
       ''    db.refresh(appointment)'',
       ''    return {"id": appointment.id, "patient_id": appointment.patient_id, "doctor_id": appointment.doctor_id}'',
       '''',
       '''',
       ''@app.get("/api/appointments", response_model=List[dict])'',
       ''def get_appointments(skip: int = 0, limit: int = 100, db: Session = Depends(get_db)):'',
       ''    appointments = db.query(Appointment).offset(skip).limit(limit).all()'',
       ''    return [{"id": a.id, "patient_id": a.patient_id, "doctor_id": a.doctor_id, "appointment_date": str(a.appointment_date)} for a in appointments]'']\<close>

definition clinic_App_jsx :: pystr where
  \<open>clinic_App_jsx =
    text_lines
      [''import React, { useState } from 'react';'',
       ''import { Calendar, User, Stethoscope } from 'lucide-react';'',
       '''',
       ''function App() {'',
       ''  const [activeTab, setActiveTab] = useState('appointments');'',
       '''',
       ''  return ('',
       ''    <div className="min-h-screen bg-gradient-to-br from-red-50 to-pink-100">'',
       ''      <div className="container mx-auto px-4 py-8">'',
       ''        <h1 className="text-4xl font-bold text-gray-800 mb-8 text-center flex items-center justify-center gap-3">'',
       ''          <Stethoscope size={40} />'',
       ''          Clinic Appointment Management'',
       ''        </h1>'',
       ''        '',
       ''        <div className="flex space-x-4 mb-6 border-b border-gray-300">'',
       ''          {['',
       ''            { id: 'appointments', label: 'Appointments', icon: Calendar },'',
       ''            { id: 'patients', label: 'Patients', icon: User },'',
       ''            { id: 'doctors', label: 'Doctors', icon: Stethoscope }'',
       ''          ].map(tab => ('',
       ''            <button'',
       ''              key={tab.id}'',
       ''              onClick={() => setActiveTab(tab.id)}'',
       ''              className={`px-6 py-3 font-semibold flex items-center gap-2 transition-colors ${'',
       ''                activeTab === tab.id''] @
    (str ''                  ? '' @ [39] @ str ''border-b-2 border-red-600 text-red-600'' @ [39] @ [10]) @
    (str ''                  : '' @ [39] @ str ''text-gray-600 hover:text-red-600'' @ [39] @ [10]) @
    text_lines
      [''              }`}'',
       ''            >'',
       ''              <tab.icon size={20} />'',
       ''              {tab.label}'',
       ''            </button>'',
       ''          ))}'',
       ''        </div>'',
       '''',
       ''        <div className="bg-white rounded-lg shadow-lg p-6">'',
       ''          <h2 className="text-2xl font-semibold text-gray-800 mb-4 capitalize">{activeTab}</h2>'',
       ''          <p className="text-gray-600">Manage clinic {activeTab} here.</p>'',
       ''        </div>'',
       ''      </div>'',
       ''    </div>'',
       ''  );'',
       ''}'',
       '''',
       ''export default App;'']\<close>

definition clinic_README_md :: pystr where
  \<open>clinic_README_md =
    text_lines
      [''# Clinic Appointment Management System'',
       '''',
       ''A healthcare management system for scheduling appointments and managing patient records.'',
       '''',
       ''## Setup'',
       '''',
       ''1. Install dependencies: `pip install fastapi uvicorn sqlalchemy`'',
       ''2. Run server: `uvicorn main:app --reload`'',
       ''3. Install frontend: `npm install && npm run dev`'']\<close>

definition EXAMPLES :: "AnalysisResult pydict" where
  "EXAMPLES =
     [(str ''food-pantry'',
       \<lparr>summary = JStr food_pantry_summary,
        files =
          [(str ''models.py'', JStr food_pantry_models_py),
           (str ''main.py'', JStr food_pantry_main_py),
           (str ''App.jsx'', JStr food_pantry_App_jsx),
           (str ''README.md'', JStr food_pantry_README_md)]\<rparr>),
      (str ''library'',
       \<lparr>summary = JStr library_summary,
        files =
          [(str ''models.py'', JStr library_models_py),
           (str ''main.py'', JStr library_main_py),
           (str ''App.jsx'', JStr library_App_jsx),
           (str ''README.md'', JStr library_README_md)]\<rparr>),
      (str ''clinic'',
       \<lparr>summary = JStr clinic_summary,
        files =
          [(str ''models.py'', JStr clinic_models_py),
           (str ''main.py'', JStr clinic_main_py),
           (str ''App.jsx'', JStr clinic_App_jsx),
           (str ''README.md'', JStr clinic_README_md)]\<rparr>)]"

text \<open>
  \<open>get_example\<close> raises \<open>ValueError\<close> for an identifier that is not a key of the table;
  the subscript \<open>self.EXAMPLES[example_id]\<close> after the test raises \<open>KeyError\<close> on a
  missing key.
\<close>

definition get_example :: "pystr \<Rightarrow> exn + AnalysisResult" where
  "get_example example_id =
    (if \<not> contains EXAMPLES example_id then
       (let available = join (str '', '') (keys EXAMPLES)
        in Inl (ValueError (str ''Example '' @ quoted example_id @
                            str '' not found. Available examples: '' @ available)))
     else (case map_of EXAMPLES example_id of
             None \<Rightarrow> Inl (KeyError (quoted example_id))
           | Some result \<Rightarrow> Inr result))"

definition list_examples :: "pystr list" where
  "list_examples = keys EXAMPLES"

section \<open>Dictionaries, the scan and the placeholders\<close>

lemma keys_simps:
  "keys [] = []" "keys ((k, v) # d) = k # keys d" "keys (d @ d') = keys d @ keys d'"
  by (simp_all add: keys_def)

lemma map_of_setitem: "map_of (setitem d k v) = (map_of d)(k \<mapsto> v)"
  by (induction d k v rule: setitem.induct) auto

lemma keys_setitem:
  "keys (setitem d k v) = (if k \<in> set (keys d) then keys d else keys d @ [k])"
  by (induction d k v rule: setitem.induct) (auto simp: keys_def)

lemma setitem_fresh: "k \<notin> set (keys d) \<Longrightarrow> setitem d k v = d @ [(k, v)]"
  by (induction d k v rule: setitem.induct) (auto simp: keys_def)

lemma contains_keys: "contains d k \<longleftrightarrow> k \<in> set (keys d)"
  by (simp add: contains_def keys_def map_of_eq_None_iff)

lemma distinct_setitem: "distinct (keys d) \<Longrightarrow> distinct (keys (setitem d k v))"
  by (simp add: keys_setitem)

lemma copy_items_append:
  "distinct (keys (nf @ items)) \<Longrightarrow> copy_items nf items = nf @ items"
proof (induction nf items rule: copy_items.induct)
  case (1 nf)
  then show ?case by simp
next
  case (2 nf key val items)
  from "2.prems" have fresh: "key \<notin> set (keys nf)"
    by (auto simp: keys_def)
  from "2.prems" have "distinct (keys ((nf @ [(key, val)]) @ items))"
    by (auto simp: keys_def)
  with "2.IH" fresh show ?case
    by (simp add: setitem_fresh)
qed

lemma copy_items_distinct: "distinct (keys fs) \<Longrightarrow> copy_items [] fs = fs"
  using copy_items_append [of "[]" fs] by simp

lemma distinct_copy_items:
  "distinct (keys nf) \<Longrightarrow> distinct (keys (copy_items nf items))"
  by (induction nf items rule: copy_items.induct) (auto simp: distinct_setitem)

lemma set_keys_copy_items:
  "set (keys (copy_items nf items)) = set (keys nf) \<union> set (keys items)"
  by (induction nf items rule: copy_items.induct) (auto simp: keys_setitem keys_simps)

lemma copy_items_entries:
  "map_of (copy_items nf items) k = Some v \<Longrightarrow> (k, v) \<in> set nf \<union> set items"
proof (induction nf items rule: copy_items.induct)
  case (1 nf)
  then show ?case by (auto dest: map_of_SomeD)
next
  case (2 nf key val items)
  from "2.prems" have "map_of (copy_items (setitem nf key val) items) k = Some v"
    by simp
  then have "(k, v) \<in> set (setitem nf key val) \<or> (k, v) \<in> set items"
    using "2.IH" by auto
  moreover have "(k, v) \<in> set (setitem nf key val) \<Longrightarrow> (k, v) \<in> set nf \<or> (k, v) = (key, val)"
    by (induction nf key val rule: setitem.induct) (auto split: if_splits)
  ultimately show ?case by auto
qed

lemma find_react_file_Some:
  "find_react_file ks = Some k \<Longrightarrow> k \<in> set ks \<and> k \<in> set react_names"
  by (induction ks) (auto split: if_splits)

lemma find_react_file_None:
  "find_react_file ks = None \<longleftrightarrow> (\<forall>k\<in>set ks. k \<notin> set react_names)"
  by (induction ks) auto

lemma find_react_file_first:
  "\<forall>k'\<in>set pre. k' \<notin> set react_names \<Longrightarrow> k \<in> set react_names \<Longrightarrow>
   find_react_file (pre @ k # post) = Some k"
  by (induction pre) auto

lemma names_distinct:
  "str ''App.jsx'' \<noteq> str ''models.py''" "str ''App.jsx'' \<noteq> str ''main.py''"
  "str ''App.jsx'' \<noteq> str ''README.md''" "str ''models.py'' \<noteq> str ''main.py''"
  "str ''models.py'' \<noteq> str ''README.md''" "str ''main.py'' \<noteq> str ''README.md''"
  "str ''models.py'' \<noteq> str ''App.jsx''" "str ''main.py'' \<noteq> str ''App.jsx''"
  "str ''README.md'' \<noteq> str ''App.jsx''" "str ''main.py'' \<noteq> str ''models.py''"
  "str ''README.md'' \<noteq> str ''models.py''" "str ''README.md'' \<noteq> str ''main.py''"
  by (simp_all add: str_def)

lemma react_names_split:
  "k \<in> set react_names \<longleftrightarrow> k = str ''App.jsx'' \<or> k \<in> set variant_names"
  by (auto simp: react_names_def variant_names_def)

lemma app_jsx_not_variant: "str ''App.jsx'' \<notin> set variant_names"
  by (simp add: variant_names_def str_def)

lemma critical_not_react:
  "str ''models.py'' \<notin> set react_names" "str ''main.py'' \<notin> set react_names"
  "str ''README.md'' \<notin> set react_names"
  by (simp_all add: react_names_def str_def)

lemma map_react_file_result:
  "(map_react_file (find_react_file (keys nf)) nf = Inr nf \<and>
      (contains nf (str ''App.jsx'') \<or> find_react_file (keys nf) = None)) \<or>
   (\<exists>k v. find_react_file (keys nf) = Some k \<and> k \<in> set variant_names \<and>
      \<not> contains nf (str ''App.jsx'') \<and> map_of nf k = Some v \<and>
      map_react_file (find_react_file (keys nf)) nf = Inr (nf @ [(str ''App.jsx'', v)]))"
proof (cases "find_react_file (keys nf)")
  case None
  then show ?thesis by (simp add: map_react_file_def)
next
  case (Some k)
  then have k: "k \<in> set (keys nf)" "k \<in> set react_names"
    using find_react_file_Some by blast+
  show ?thesis
  proof (cases "contains nf (str ''App.jsx'')")
    case True
    with Some show ?thesis by (simp add: map_react_file_def)
  next
    case False
    with k have kv: "k \<noteq> str ''App.jsx''" "k \<in> set variant_names"
      by (auto simp: contains_keys react_names_split)
    from k(1) have "map_of nf k \<noteq> None"
      by (simp add: keys_def map_of_eq_None_iff)
    then obtain v where v: "map_of nf k = Some v"
      by blast
    from False have "setitem nf (str ''App.jsx'') v = nf @ [(str ''App.jsx'', v)]"
      by (simp add: setitem_fresh contains_keys)
    with Some False kv v show ?thesis
      by (simp add: map_react_file_def)
  qed
qed

lemma ensure_app_jsx_eq:
  "ensure_app_jsx nf =
     (if contains nf (str ''App.jsx'') then nf
      else nf @ [(str ''App.jsx'', JStr app_jsx_placeholder)])"
  by (simp add: ensure_app_jsx_def setitem_fresh contains_keys)

lemma add_placeholders_extends:
  "\<exists>added. add_placeholders nf ps = nf @ added \<and> set (keys added) \<subseteq> fst ` set ps"
proof (induction nf ps rule: add_placeholders.induct)
  case (1 nf)
  then show ?case by (simp add: keys_simps)
next
  case (2 nf file_name placeholder rest)
  let ?nf' = "if \<not> contains nf file_name then setitem nf file_name (JStr placeholder) else nf"
  from "2.IH" obtain added where a:
    "add_placeholders ?nf' rest = ?nf' @ added" "set (keys added) \<subseteq> fst ` set rest"
    by blast
  show ?case
  proof (cases "contains nf file_name")
    case True
    with a show ?thesis by auto
  next
    case False
    then have "?nf' = nf @ [(file_name, JStr placeholder)]"
      by (simp add: setitem_fresh contains_keys)
    with a False have "add_placeholders nf ((file_name, placeholder) # rest) =
        nf @ ((file_name, JStr placeholder) # added)"
      by simp
    moreover have "set (keys ((file_name, JStr placeholder) # added)) \<subseteq>
        fst ` set ((file_name, placeholder) # rest)"
      using a(2) by (auto simp: keys_simps)
    ultimately show ?thesis by blast
  qed
qed

lemma map_of_add_placeholders:
  "map_of (add_placeholders nf ps) k =
     (case map_of nf k of Some v \<Rightarrow> Some v | None \<Rightarrow> map_option JStr (map_of ps k))"
  by (induction nf ps rule: add_placeholders.induct)
     (auto simp: map_of_setitem contains_def split: option.splits)

lemma distinct_add_placeholders:
  "distinct (keys nf) \<Longrightarrow> distinct (keys (add_placeholders nf ps))"
  by (induction nf ps rule: add_placeholders.induct) (auto simp: distinct_setitem)

lemma parse_response_dict:
  assumes "loads (clean_response t) = Inr (JDict m)" and "given_files m = Some fs"
  shows "\<exists>nf. map_react_file (find_react_file (keys (copy_items [] fs))) (copy_items [] fs) = Inr nf \<and>
           parse_response loads t d =
             Inr \<lparr>summary = (case map_of m (str ''analysis_summary'') of
                                None \<Rightarrow> JStr (str ''Generated application based on: '' @ d)
                              | Some v \<Rightarrow> v),
                  files = add_placeholders (ensure_app_jsx nf) critical_files\<rparr>"
proof -
  from assms(2) have gf: "py_get (JDict m) (str ''generated_files'') (JDict []) = Inr (JDict fs)"
    by (auto simp: given_files_def split: option.splits json.splits)
  from map_react_file_result [of "copy_items [] fs"] obtain nf where
    nf: "map_react_file (find_react_file (keys (copy_items [] fs))) (copy_items [] fs) = Inr nf"
    by blast
  with assms(1) gf have "parse_response loads t d =
      Inr \<lparr>summary = (case map_of m (str ''analysis_summary'') of
                         None \<Rightarrow> JStr (str ''Generated application based on: '' @ d)
                       | Some v \<Rightarrow> v),
           files = add_placeholders (ensure_app_jsx nf) critical_files\<rparr>"
    unfolding parse_response_def parse_body_def
    by (simp split: option.splits)
  with nf show ?thesis by blast
qed

section \<open>Evaluation on concrete texts\<close>

lemmas text_eval =
  str_def strip_def isspace_def startswith_def endswith_def clean_response_def

lemmas decoder_eval =
  json_loads_def json_decode_def json_ws_def unescape_def is_digit_def digits_value_def
  scan_number_def

lemmas normalizer_eval =
  parse_response_def parse_body_def keys_def contains_def react_names_def map_react_file_def
  ensure_app_jsx_def critical_files_def app_jsx_placeholder_def

section \<open>The normalizer as a whole\<close>

lemma parse_response_raises_ValueError:
  "parse_response loads t d = Inl e \<Longrightarrow> \<exists>msg. e = ValueError msg"
  by (auto simp: parse_response_def split: sum.splits exn.splits)

lemma remap_cases:
  assumes "map_react_file (find_react_file (keys cf)) cf = Inr nf"
  shows "(nf = cf \<and> (contains cf (str ''App.jsx'') \<or> find_react_file (keys cf) = None)) \<or>
         (\<exists>k v. find_react_file (keys cf) = Some k \<and> k \<in> set variant_names \<and>
            \<not> contains cf (str ''App.jsx'') \<and> map_of cf k = Some v \<and>
            nf = cf @ [(str ''App.jsx'', v)])"
  using map_react_file_result [of cf] assms by auto

lemma remap_keeps:
  assumes "map_react_file (find_react_file (keys cf)) cf = Inr nf" and "map_of cf k = Some v"
  shows "map_of nf k = Some v"
  using remap_cases [OF assms(1)] assms(2) by (auto simp: map_add_Some_iff)

lemma remap_lookup:
  assumes "map_react_file (find_react_file (keys cf)) cf = Inr nf" and "map_of nf k = Some v"
  shows "map_of cf k = Some v \<or>
         (k = str ''App.jsx'' \<and> (\<exists>k'\<in>set variant_names. map_of cf k' = Some v))"
  using remap_cases [OF assms(1)] assms(2)
  by (auto simp: map_add_Some_iff split: if_splits)

lemma map_of_normalized:
  "map_of (add_placeholders (ensure_app_jsx nf) critical_files) k =
     (case map_of nf k of
        Some v \<Rightarrow> Some v
      | None \<Rightarrow> if k = str ''App.jsx'' then Some (JStr app_jsx_placeholder)
                else map_option JStr (map_of critical_files k))"
proof -
  have "map_of critical_files (str ''App.jsx'') = None"
    by (simp add: critical_files_def names_distinct)
  then show ?thesis
    by (auto simp: map_of_add_placeholders ensure_app_jsx_def map_of_setitem contains_def
             split: option.splits)
qed

lemma critical_lookup:
  "map_of critical_files (str ''models.py'') =
     Some (str ''# SQLAlchemy models\<newline># File not generated by AI'')"
  "map_of critical_files (str ''main.py'') =
     Some (str ''# FastAPI application\<newline># File not generated by AI'')"
  "map_of critical_files (str ''README.md'') =
     Some (str ''# README\<newline># File not generated by AI'')"
  by (simp_all add: critical_files_def names_distinct)

section \<open>Stripping and fences\<close>

lemma fence_codes:
  "str ''```'' = [96, 96, 96]" "str ''```json'' = [96, 96, 96, 106, 115, 111, 110]"
  by (simp_all add: str_def)

lemma json_first_not_space: "json_first c \<Longrightarrow> \<not> isspace c \<and> c \<noteq> 96 \<and> c \<noteq> 106"
  by (auto simp: json_first_def isspace_def str_def)

lemma json_last_not_space: "json_last c \<Longrightarrow> \<not> isspace c \<and> c \<noteq> 96"
  by (auto simp: json_last_def isspace_def str_def)

lemma strip_decompose:
  "\<exists>a b. t = a @ strip t @ b \<and> (\<forall>c\<in>set a. isspace c) \<and> (\<forall>c\<in>set b. isspace c)"
proof -
  let ?d = "dropWhile isspace t"
  have "t = takeWhile isspace t @ ?d" by simp
  moreover have "rev ?d = takeWhile isspace (rev ?d) @ dropWhile isspace (rev ?d)" by simp
  then have "?d = rev (dropWhile isspace (rev ?d)) @ rev (takeWhile isspace (rev ?d))"
    by (metis rev_append rev_rev_ident)
  then have "?d = strip t @ rev (takeWhile isspace (rev ?d))"
    by (simp add: strip_def)
  moreover have "\<forall>c\<in>set (takeWhile isspace t). isspace c"
    by (auto dest: set_takeWhileD)
  moreover have "\<forall>c\<in>set (rev (takeWhile isspace (rev ?d))). isspace c"
    by (auto dest: set_takeWhileD)
  ultimately show ?thesis by metis
qed

lemma strip_padded:
  assumes "u \<noteq> []" "\<not> isspace (hd u)" "\<not> isspace (last u)"
    and "\<forall>c\<in>set a. isspace c" "\<forall>c\<in>set b. isspace c"
  shows "strip (a @ u @ b) = u"
proof -
  from assms(1,2) have "dropWhile isspace (u @ b) = u @ b"
    by (cases u) auto
  with assms(4) have "dropWhile isspace (a @ u @ b) = u @ b"
    by simp
  moreover have "dropWhile isspace (rev b @ rev u) = dropWhile isspace (rev u)"
    by (rule dropWhile_append2) (use assms(5) in auto)
  moreover from assms(1,3) have "dropWhile isspace (rev u) = rev u"
    by (cases u rule: rev_cases) auto
  ultimately show ?thesis by (simp add: strip_def)
qed

lemma strip_same:
  assumes "u \<noteq> []" "\<not> isspace (hd u)" "\<not> isspace (last u)"
  shows "strip u = u"
  using strip_padded [OF assms, of "[]" "[]"] by simp

lemma startswith_hd: "startswith s (c # p) \<Longrightarrow> s \<noteq> [] \<and> hd s = c"
  by (cases s) (auto simp: startswith_def)

lemma endswith_last: "endswith s (p @ [c]) \<Longrightarrow> s \<noteq> [] \<and> last s = c"
proof -
  assume e: "endswith s (p @ [c])"
  then have "drop (length s - length (p @ [c])) s = p @ [c]" and "length (p @ [c]) \<le> length s"
    by (auto simp: endswith_def)
  then have "s = take (length s - length (p @ [c])) s @ p @ [c]"
    by (metis append_take_drop_id)
  then have "s \<noteq> [] \<and> last s = last (take (length s - length (p @ [c])) s @ p @ [c])"
    by (metis Nil_is_append_conv list.distinct(1))
  then show ?thesis by simp
qed

lemma endswith_append: "endswith (s @ p) p"
  by (simp add: endswith_def)

lemma startswith_append: "startswith (p @ s) p"
  by (simp add: startswith_def)

lemma clean_unfenced:
  assumes "json_shaped t"
  shows "clean_response t = strip t"
proof -
  let ?u = "strip t"
  from assms have u: "?u \<noteq> []" "json_first (hd ?u)" "json_last (last ?u)"
    by (simp_all add: json_shaped_def)
  have 1: "\<not> startswith ?u (str ''```json'')" and 2: "\<not> startswith ?u (str ''```'')"
    using u(2) json_first_not_space startswith_hd
    by (fastforce simp: fence_codes)+
  have 3: "\<not> endswith ?u (str ''```'')"
    using u(3) json_last_not_space endswith_last [of ?u "[96, 96]" 96]
    by (auto simp: fence_codes)
  have "strip ?u = ?u"
    using u json_first_not_space json_last_not_space by (intro strip_same) auto
  with 1 2 3 show ?thesis
    by (simp add: clean_response_def Let_def)
qed

lemma clean_fenced:
  assumes "json_shaped t" and "\<forall>c\<in>set ws1. isspace c" and "\<forall>c\<in>set ws2. isspace c"
    and "fence = str ''```json'' \<or> fence = str ''```''"
    and "\<forall>c\<in>set before. isspace c" and "\<forall>c\<in>set after. isspace c"
  shows "clean_response (before @ fence @ ws1 @ t @ ws2 @ str ''```'' @ after) = strip t"
proof -
  let ?u = "strip t"
  from assms(1) have u: "?u \<noteq> []" "\<not> isspace (hd ?u)" "\<not> isspace (last ?u)"
      "hd ?u \<noteq> 96" "hd ?u \<noteq> 106"
    using json_first_not_space json_last_not_space by (auto simp: json_shaped_def)
  from strip_decompose [of t] obtain a b where
    t: "t = a @ ?u @ b" and a: "\<forall>c\<in>set a. isspace c" and b: "\<forall>c\<in>set b. isspace c"
    by blast
  define A where "A = ws1 @ a"
  define B where "B = b @ ws2"
  have AB: "\<forall>c\<in>set A. isspace c" "\<forall>c\<in>set B. isspace c"
    using a b assms(2,3) by (auto simp: A_def B_def)
  define inner where "inner = A @ ?u @ B @ [96, 96, 96]"
  define whole where "whole = before @ (fence @ inner) @ after"
  have whole: "before @ fence @ ws1 @ t @ ws2 @ str ''```'' @ after = whole"
    by (subst t) (simp add: whole_def inner_def A_def B_def fence_codes)
  have hd_inner: "inner \<noteq> [] \<and> hd inner \<noteq> 96 \<and> hd inner \<noteq> 106"
  proof (cases A)
    case Nil
    with u show ?thesis by (simp add: inner_def)
  next
    case (Cons c cs)
    with AB(1) have "isspace c" by simp
    then have "c \<noteq> 96 \<and> c \<noteq> 106" by (auto simp: isspace_def)
    with Cons show ?thesis by (simp add: inner_def)
  qed
  have inner_plain: "\<not> startswith inner (str ''```'')"
    using hd_inner startswith_hd [of inner 96 "[96, 96]"] by (auto simp: fence_codes)
  have inner_end: "endswith inner (str ''```'')"
    using endswith_append [of "A @ ?u @ B" "[96, 96, 96]"] by (simp add: inner_def fence_codes)
  have inner_cut: "take (length inner - 3) inner = A @ ?u @ B"
    by (simp add: inner_def)
  have inner_strip: "strip (A @ ?u @ B) = ?u"
    using strip_padded [OF u(1,2,3) AB] .
  have not_space: "\<not> isspace 96"
    by (simp add: isspace_def)
  have last_fenced: "last (fence @ inner) = 96" "fence @ inner \<noteq> []"
    by (simp_all add: inner_def)
  from assms(4) have hd_fenced: "hd (fence @ inner) = 96"
    by (auto simp: fence_codes)
  have strip_whole: "strip whole = fence @ inner"
    unfolding whole_def
    using last_fenced hd_fenced not_space assms(5,6) by (intro strip_padded) auto
  have "clean_response whole = ?u"
    using assms(4)
  proof
    assume f: "fence = str ''```json''"
    then have "startswith (fence @ inner) (str ''```json'')" "drop 7 (fence @ inner) = inner"
      by (simp_all add: startswith_def fence_codes)
    with inner_plain inner_end inner_cut inner_strip show ?thesis
      by (simp add: clean_response_def Let_def strip_whole)
  next
    assume f: "fence = str ''```''"
    have "\<not> startswith (fence @ inner) (str ''```json'')"
    proof
      assume "startswith (fence @ inner) (str ''```json'')"
      with f hd_inner show False
        by (cases inner) (auto simp: startswith_def fence_codes)
    qed
    moreover from f have "startswith (fence @ inner) (str ''```'')" "drop 3 (fence @ inner) = inner"
      by (simp_all add: startswith_def fence_codes)
    ultimately show ?thesis
      using inner_plain inner_end inner_cut inner_strip
      by (simp add: clean_response_def Let_def strip_whole)
  qed
  then show ?thesis by (simp only: whole)
qed

section \<open>Results on mappings with distinct keys\<close>

lemma find_react_file_split:
  "find_react_file ks = Some k \<Longrightarrow>
   \<exists>pre post. ks = pre @ k # post \<and> (\<forall>k'\<in>set pre. k' \<notin> set react_names)"
proof (induction ks)
  case Nil
  then show ?case by simp
next
  case (Cons a ks)
  show ?case
  proof (cases "a \<in> set react_names")
    case True
    with Cons.prems have "a # ks = [] @ k # ks" by simp
    then show ?thesis by (metis empty_iff list.set(1))
  next
    case False
    with Cons obtain pre post where "ks = pre @ k # post" "\<forall>k'\<in>set pre. k' \<notin> set react_names"
      by auto
    with False have "a # ks = (a # pre) @ k # post" "\<forall>k'\<in>set (a # pre). k' \<notin> set react_names"
      by auto
    then show ?thesis by blast
  qed
qed

lemma map_of_keys: "k \<in> set (keys d) \<longleftrightarrow> map_of d k \<noteq> None"
  by (simp add: keys_def map_of_eq_None_iff)

lemma normalized_distinct:
  assumes "map_react_file (find_react_file (keys cf)) cf = Inr nf" and "distinct (keys cf)"
  shows "distinct (keys (add_placeholders (ensure_app_jsx nf) critical_files))"
proof -
  from remap_cases [OF assms(1)] assms(2) have "distinct (keys nf)"
    by (auto simp: keys_simps contains_keys)
  then have "distinct (keys (ensure_app_jsx nf))"
    by (simp add: ensure_app_jsx_def distinct_setitem)
  then show ?thesis by (rule distinct_add_placeholders)
qed

lemma normalized_extends:
  assumes "map_react_file (find_react_file (keys cf)) cf = Inr nf"
  shows "\<exists>added. add_placeholders (ensure_app_jsx nf) critical_files = cf @ added \<and>
           set (keys added) \<subseteq>
             {str ''App.jsx'', str ''models.py'', str ''main.py'', str ''README.md''}"
proof -
  from remap_cases [OF assms] obtain a1 where
    a1: "nf = cf @ a1" "set (keys a1) \<subseteq> {str ''App.jsx''}"
    by (auto simp: keys_simps)
  have "\<exists>a2. ensure_app_jsx nf = nf @ a2 \<and> set (keys a2) \<subseteq> {str ''App.jsx''}"
  proof (cases "contains nf (str ''App.jsx'')")
    case True
    then have "ensure_app_jsx nf = nf @ []" "set (keys []) \<subseteq> {str ''App.jsx''}"
      by (simp_all add: ensure_app_jsx_eq keys_simps)
    then show ?thesis by blast
  next
    case False
    then have "ensure_app_jsx nf = nf @ [(str ''App.jsx'', JStr app_jsx_placeholder)]"
      "set (keys [(str ''App.jsx'', JStr app_jsx_placeholder)]) \<subseteq> {str ''App.jsx''}"
      by (simp_all add: ensure_app_jsx_eq keys_simps)
    then show ?thesis by blast
  qed
  then obtain a2 where a2: "ensure_app_jsx nf = nf @ a2" "set (keys a2) \<subseteq> {str ''App.jsx''}"
    by blast
  from add_placeholders_extends [of "ensure_app_jsx nf" critical_files] obtain a3 where
    a3: "add_placeholders (ensure_app_jsx nf) critical_files = ensure_app_jsx nf @ a3"
      "set (keys a3) \<subseteq> fst ` set critical_files"
    by blast
  have "fst ` set critical_files = {str ''models.py'', str ''main.py'', str ''README.md''}"
    by (simp add: critical_files_def)
  with a1 a2 a3 have
    "add_placeholders (ensure_app_jsx nf) critical_files = cf @ (a1 @ a2 @ a3)"
    "set (keys (a1 @ a2 @ a3)) \<subseteq>
       {str ''App.jsx'', str ''models.py'', str ''main.py'', str ''README.md''}"
    by (auto simp: keys_simps)
  then show ?thesis by blast
qed

lemma normalized_keeps:
  assumes "map_react_file (find_react_file (keys cf)) cf = Inr nf" and "map_of cf k = Some v"
  shows "map_of (add_placeholders (ensure_app_jsx nf) critical_files) k = Some v"
  using remap_keeps [OF assms] by (simp add: map_of_normalized)

text \<open>What a successful run on a mapping with distinct keys returns.\<close>

lemma parse_response_distinct:
  assumes "loads (clean_response t) = Inr (JDict m)" and "given_files m = Some fs"
    and "distinct (keys fs)"
  shows "\<exists>nf. map_react_file (find_react_file (keys fs)) fs = Inr nf \<and>
           parse_response loads t d =
             Inr \<lparr>summary = (case map_of m (str ''analysis_summary'') of
                                None \<Rightarrow> JStr (str ''Generated application based on: '' @ d)
                              | Some v \<Rightarrow> v),
                  files = add_placeholders (ensure_app_jsx nf) critical_files\<rparr>"
  using parse_response_dict [of loads t m fs d] assms by (simp add: copy_items_distinct)

lemma add_placeholders_same:
  "\<forall>k\<in>fst ` set ps. contains nf k \<Longrightarrow> add_placeholders nf ps = nf"
  by (induction nf ps rule: add_placeholders.induct) auto

lemma parse_response_InrD:
  assumes "parse_response loads t d = Inr r"
  shows "\<exists>m fs. loads (clean_response t) = Inr (JDict m) \<and> given_files m = Some fs"
proof -
  from assms obtain data where data: "loads (clean_response t) = Inr data"
    by (cases "loads (clean_response t)")
       (auto simp: parse_response_def parse_body_def split: exn.splits)
  with assms obtain m where m: "data = JDict m"
    by (cases data)
       (auto simp: parse_response_def parse_body_def no_attribute_def split: exn.splits)
  from assms data m have "\<exists>fs. given_files m = Some fs"
    by (cases "map_of m (str ''generated_files'')"; cases "the (map_of m (str ''generated_files''))")
       (auto simp: parse_response_def parse_body_def no_attribute_def given_files_def
             split: exn.splits)
  with data m show ?thesis by blast
qed

text \<open>The files of every result have distinct keys and hold the four critical keys.\<close>

lemma parse_response_files:
  assumes "parse_response loads t d = Inr r"
  shows "distinct (keys (files r))"
    and "contains (files r) (str ''App.jsx'')" and "contains (files r) (str ''models.py'')"
    and "contains (files r) (str ''main.py'')" and "contains (files r) (str ''README.md'')"
proof -
  from parse_response_InrD [OF assms] obtain m fs where
    l: "loads (clean_response t) = Inr (JDict m)" and g: "given_files m = Some fs"
    by blast
  let ?cf = "copy_items [] fs"
  from parse_response_dict [of loads t m fs d] l g assms obtain nf where
    nf: "map_react_file (find_react_file (keys ?cf)) ?cf = Inr nf" and
    f: "files r = add_placeholders (ensure_app_jsx nf) critical_files"
    by force
  have "distinct (keys ?cf)"
    using distinct_copy_items [of "[]" fs] by (simp add: keys_simps)
  from normalized_distinct [OF nf this] show "distinct (keys (files r))"
    by (simp add: f)
  show "contains (files r) (str ''App.jsx'')" "contains (files r) (str ''models.py'')"
    "contains (files r) (str ''main.py'')" "contains (files r) (str ''README.md'')"
    by (simp_all add: contains_def f map_of_normalized critical_lookup names_distinct
        split: option.splits)
qed

lemma first_variant_wins:
  assumes "loads (clean_response t) = Inr (JDict m)" and "given_files m = Some fs"
    and "distinct (keys fs)" and "str ''App.jsx'' \<notin> set (keys fs)"
    and "keys fs = pre @ k # post" and "k \<in> set variant_names"
    and "\<forall>k'\<in>set pre. k' \<notin> set variant_names" and "map_of fs k = Some v"
  shows "\<exists>r. parse_response loads t d = Inr r \<and> map_of (files r) (str ''App.jsx'') = Some v"
proof -
  from parse_response_distinct [of loads t m fs d] assms(1-3) obtain nf r where
    nf: "map_react_file (find_react_file (keys fs)) fs = Inr nf" and
    r: "parse_response loads t d = Inr r" and
    f: "files r = add_placeholders (ensure_app_jsx nf) critical_files"
    by force
  from assms(5) have "set pre \<subseteq> set (keys fs)"
    by auto
  with assms(4,7) have "\<forall>k'\<in>set pre. k' \<notin> set react_names"
    by (auto simp: react_names_split)
  with assms(6) have first: "find_react_file (keys fs) = Some k"
    by (simp add: assms(5) find_react_file_first react_names_split)
  with remap_cases [OF nf] assms(4,8) have "nf = fs @ [(str ''App.jsx'', v)]"
    by (auto simp: contains_keys)
  with assms(4) have "map_of nf (str ''App.jsx'') = Some v"
    by (simp add: map_add_Some_iff map_of_keys)
  then have "map_of (files r) (str ''App.jsx'') = Some v"
    by (simp add: f map_of_normalized)
  with r show ?thesis by simp
qed

section \<open>The result does not depend on the instance or the log\<close>

lemma map_react_file_logged_result:
  "fst (map_react_file_logged react_file nf records) = map_react_file react_file nf"
  by (simp add: map_react_file_logged_def map_react_file_def split: option.splits)

lemma ensure_app_jsx_logged_result:
  "fst (ensure_app_jsx_logged nf records) = ensure_app_jsx nf"
  by (simp add: ensure_app_jsx_logged_def ensure_app_jsx_def)

lemma add_placeholders_logged_result:
  "fst (add_placeholders_logged nf ps records) = add_placeholders nf ps"
  by (induction nf ps records rule: add_placeholders_logged.induct) auto

lemma ensure_app_jsx_logged_fst:
  "ensure_app_jsx_logged nf records = (nf', records') \<Longrightarrow> nf' = ensure_app_jsx nf"
  using ensure_app_jsx_logged_result [of nf records] by simp

lemma add_placeholders_logged_fst:
  "add_placeholders_logged nf ps records = (nf', records') \<Longrightarrow> nf' = add_placeholders nf ps"
  using add_placeholders_logged_result [of nf ps records] by simp

lemma parse_body_logged_result:
  "fst (parse_body_logged loads list_str self records t d) = parse_body loads t d"
proof -
  have remap: "(case map_react_file_logged rf nf rs of
                  (Inl e, rs') \<Rightarrow> (Inl e, rs')
                | (Inr nf', rs') \<Rightarrow> F nf' rs') =
               (case map_react_file rf nf of
                  Inl e \<Rightarrow> (Inl e, snd (map_react_file_logged rf nf rs))
                | Inr nf' \<Rightarrow> F nf' (snd (map_react_file_logged rf nf rs)))"
    for rf nf rs and F :: "dict \<Rightarrow> log_record list \<Rightarrow> (exn + AnalysisResult) \<times> log_record list"
    using map_react_file_logged_result [of rf nf rs]
    by (cases "map_react_file_logged rf nf rs") (auto split: sum.splits)
  show ?thesis
    unfolding parse_body_logged_def parse_body_def Let_def remap
    by (auto split: sum.splits prod.splits
        dest!: ensure_app_jsx_logged_fst add_placeholders_logged_fst)
qed

lemma parse_response_logged_result:
  "fst (parse_response_logged loads list_str self records t d) = parse_response loads t d"
proof -
  obtain out rs where p: "parse_body_logged loads list_str self records t d = (out, rs)"
    by (cases "parse_body_logged loads list_str self records t d")
  with parse_body_logged_result [of loads list_str self records t d]
  have "parse_body loads t d = out" by simp
  with p show ?thesis
    by (auto simp: parse_response_logged_def parse_response_def split: sum.splits exn.splits)
qed

section \<open>The example table\<close>

lemma keys_EXAMPLES: "keys EXAMPLES = [str ''food-pantry'', str ''library'', str ''clinic'']"
  by (simp add: EXAMPLES_def keys_def)

lemma contains_EXAMPLES:
  "contains EXAMPLES example_id \<longleftrightarrow>
     example_id \<in> {str ''food-pantry'', str ''library'', str ''clinic''}"
proof -
  have "contains EXAMPLES example_id \<longleftrightarrow> example_id \<in> set (keys EXAMPLES)"
    by (simp add: contains_def keys_def map_of_eq_None_iff)
  then show ?thesis by (simp add: keys_EXAMPLES)
qed

lemma available_examples:
  "join (str '', '') (keys EXAMPLES) = str ''food-pantry, library, clinic''"
  by (simp add: keys_EXAMPLES str_def)

section \<open>The claims\<close>

text \<open>
  Claim C1, as amended. For every response text that, once the fence is stripped,
  decodes to a JSON object whose member \<open>generated_files\<close> is absent or is itself an
  object, and for every description, \<open>_parse_response\<close> returns a result, and the files
  of the result have the four keys \<open>App.jsx\<close>, \<open>models.py\<close>, \<open>main.py\<close> and \<open>README.md\<close>.
  Each is mapped to content the given mapping has for it (for \<open>App.jsx\<close> also the content
  of one of the variant names) or to its fixed placeholder. An absent \<open>generated_files\<close>
  counts as the empty mapping.
\<close>

theorem parse_response_four_keys:
  assumes "loads (clean_response t) = Inr (JDict m)" and "given_files m = Some fs"
  shows "\<exists>r. parse_response loads t d = Inr r \<and>
     (\<exists>v. map_of (files r) (str ''App.jsx'') = Some v \<and>
        ((str ''App.jsx'', v) \<in> set fs \<or> (\<exists>k\<in>set variant_names. (k, v) \<in> set fs) \<or>
         v = JStr app_jsx_placeholder)) \<and>
     (\<exists>v. map_of (files r) (str ''models.py'') = Some v \<and>
        ((str ''models.py'', v) \<in> set fs \<or>
         v = JStr (str ''# SQLAlchemy models\<newline># File not generated by AI''))) \<and>
     (\<exists>v. map_of (files r) (str ''main.py'') = Some v \<and>
        ((str ''main.py'', v) \<in> set fs \<or>
         v = JStr (str ''# FastAPI application\<newline># File not generated by AI''))) \<and>
     (\<exists>v. map_of (files r) (str ''README.md'') = Some v \<and>
        ((str ''README.md'', v) \<in> set fs \<or>
         v = JStr (str ''# README\<newline># File not generated by AI'')))"
proof -
  let ?cf = "copy_items [] fs"
  from parse_response_dict [of loads t m fs d] assms obtain nf r where
    nf: "map_react_file (find_react_file (keys ?cf)) ?cf = Inr nf" and
    r: "parse_response loads t d = Inr r" and
    f: "files r = add_placeholders (ensure_app_jsx nf) critical_files"
    by force
  have given: "(k, v) \<in> set fs" if "map_of ?cf k = Some v" for k v
    using copy_items_entries [OF that] by simp
  have other: "\<exists>v. map_of (files r) k = Some v \<and> ((k, v) \<in> set fs \<or> v = JStr p)"
    if "k \<noteq> str ''App.jsx''" and "map_of critical_files k = Some p" for k p
  proof (cases "map_of nf k")
    case None
    with that show ?thesis by (simp add: f map_of_normalized)
  next
    case (Some v)
    with remap_lookup [OF nf Some] that(1) have "(k, v) \<in> set fs"
      by (auto intro: given)
    with Some show ?thesis by (simp add: f map_of_normalized)
  qed
  have app: "\<exists>v. map_of (files r) (str ''App.jsx'') = Some v \<and>
        ((str ''App.jsx'', v) \<in> set fs \<or> (\<exists>k\<in>set variant_names. (k, v) \<in> set fs) \<or>
         v = JStr app_jsx_placeholder)"
  proof (cases "map_of nf (str ''App.jsx'')")
    case None
    then show ?thesis by (simp add: f map_of_normalized)
  next
    case (Some v)
    with remap_lookup [OF nf Some] have
      "(str ''App.jsx'', v) \<in> set fs \<or> (\<exists>k\<in>set variant_names. (k, v) \<in> set fs)"
      by (auto intro: given)
    with Some show ?thesis by (auto simp: f map_of_normalized)
  qed
  from r app other [OF names_distinct(7) critical_lookup(1)]
    other [OF names_distinct(8) critical_lookup(2)]
    other [OF names_distinct(9) critical_lookup(3)]
  show ?thesis by blast
qed

text \<open>The theorem at the text \<open>{"analysis_summary": "s"}\<close>, which has no \<open>generated_files\<close>.\<close>

theorem parse_response_four_keys_witness:
  \<open>json_loads (clean_response (str ''{"analysis_summary": "s"}'')) =
     Inr (JDict [(str ''analysis_summary'', JStr (str ''s''))]) \<and>
   given_files [(str ''analysis_summary'', JStr (str ''s''))] = Some [] \<and>
   (\<exists>r. parse_response json_loads (str ''{"analysis_summary": "s"}'') (str ''A task tracker'') = Inr r \<and>
     map_of (files r) (str ''App.jsx'') = Some (JStr app_jsx_placeholder) \<and>
     map_of (files r) (str ''models.py'') =
       Some (JStr (str ''# SQLAlchemy models\<newline># File not generated by AI'')) \<and>
     map_of (files r) (str ''main.py'') =
       Some (JStr (str ''# FastAPI application\<newline># File not generated by AI'')) \<and>
     map_of (files r) (str ''README.md'') =
       Some (JStr (str ''# README\<newline># File not generated by AI'')))\<close>
proof -
  have l: \<open>json_loads (clean_response (str ''{"analysis_summary": "s"}'')) =
     Inr (JDict [(str ''analysis_summary'', JStr (str ''s''))])\<close>
    by (simp add: text_eval decoder_eval)
  have g: "given_files [(str ''analysis_summary'', JStr (str ''s''))] = Some []"
    by (simp add: given_files_def str_def)
  from parse_response_four_keys [of json_loads \<open>str ''{"analysis_summary": "s"}''\<close>
      "[(str ''analysis_summary'', JStr (str ''s''))]" "[]" "str ''A task tracker''"] l g
  show ?thesis by auto
qed

text \<open>
  Claim C1 as it was stated asks for a result from every text that decodes to an object.
  The text \<open>{"generated_files": null}\<close> decodes to an object and is rejected: \<open>None\<close> has no
  method \<open>keys\<close>.
\<close>

theorem non_mapping_files_rejected:
  \<open>json_loads (clean_response (str ''{"generated_files": null}'')) =
     Inr (JDict [(str ''generated_files'', JNull)]) \<and>
   parse_response json_loads (str ''{"generated_files": null}'') (str ''A task tracker'') =
     Inl (ValueError (str ''Failed to parse AI response: '' @ quoted (str ''NoneType'') @
                      str '' object has no attribute '' @ quoted (str ''keys'')))\<close>
  by (simp add: text_eval decoder_eval normalizer_eval no_attribute_def)

text \<open>
  Claim C2. When decoding the stripped text raises, or gives a value that is not a
  \<open>dict\<close> (an array, a string, a number, \<open>true\<close>, \<open>false\<close>, \<open>null\<close>), \<open>_parse_response\<close>
  raises \<open>ValueError\<close>: it raises nothing else and returns no result.
\<close>

theorem parse_response_malformed:
  assumes "(\<exists>e. loads (clean_response t) = Inl e) \<or>
           (\<exists>x. loads (clean_response t) = Inr x \<and> (\<forall>m. x \<noteq> JDict m))"
  shows "\<exists>msg. parse_response loads t d = Inl (ValueError msg)"
  using assms
proof
  assume "\<exists>e. loads (clean_response t) = Inl e"
  then obtain e where "loads (clean_response t) = Inl e" ..
  then show ?thesis
    by (cases e) (simp_all add: parse_response_def parse_body_def)
next
  assume "\<exists>x. loads (clean_response t) = Inr x \<and> (\<forall>m. x \<noteq> JDict m)"
  then obtain x where x: "loads (clean_response t) = Inr x" "\<forall>m. x \<noteq> JDict m" by blast
  then show ?thesis
    by (cases x) (simp_all add: parse_response_def parse_body_def no_attribute_def)
qed

text \<open>
  The theorem at a fence with nothing in it, where decoding raises, and at the array
  \<open>[1, 2]\<close>.
\<close>

theorem parse_response_malformed_witness:
  \<open>json_loads (clean_response (str ''```json\<newline>```'')) =
     Inl (JSONDecodeError (str ''Expecting value: line 1 column 1 (char 0)'')) \<and>
   parse_response json_loads (str ''```json\<newline>```'') (str ''A task tracker'') =
     Inl (ValueError (str ''Invalid JSON response from AI: '' @
                      str ''Expecting value: line 1 column 1 (char 0)'')) \<and>
   json_loads (clean_response (str ''[1, 2]'')) = Inr (JList [JInt 1, JInt 2]) \<and>
   parse_response json_loads (str ''[1, 2]'') (str ''A task tracker'') =
     Inl (ValueError (str ''Failed to parse AI response: '' @ quoted (str ''list'') @
                      str '' object has no attribute '' @ quoted (str ''get'')))\<close>
  using parse_response_malformed [of json_loads "str ''```json\<newline>```''" "str ''A task tracker''"]
    parse_response_malformed [of json_loads "str ''[1, 2]''" "str ''A task tracker''"]
  by (simp add: text_eval decoder_eval normalizer_eval no_attribute_def)

text \<open>
  Claim C3. Let \<open>t\<close> be a text shaped as a JSON document is. Wrap it in a fence the
  function recognizes: the opening \<open>```json\<close> or \<open>```\<close>, whitespace such as a newline, the
  text, whitespace, the closing \<open>```\<close>, with or without whitespace around the whole.
  Cleaning the wrapped text removes both markers and the whitespace and leaves the
  stripped \<open>t\<close>, which is not empty and is what cleaning \<open>t\<close> itself leaves; so the decoder
  is handed the same document and \<open>_parse_response\<close> has the same outcome.
\<close>

theorem fence_stripping:
  assumes "json_shaped t" and "\<forall>c\<in>set ws1. isspace c" and "\<forall>c\<in>set ws2. isspace c"
    and "fence = str ''```json'' \<or> fence = str ''```''"
    and "\<forall>c\<in>set before. isspace c" and "\<forall>c\<in>set after. isspace c"
  shows "clean_response (before @ fence @ ws1 @ t @ ws2 @ str ''```'' @ after) = strip t \<and>
         clean_response t = strip t \<and> strip t \<noteq> [] \<and>
         parse_response loads (before @ fence @ ws1 @ t @ ws2 @ str ''```'' @ after) d =
         parse_response loads t d"
proof -
  have fenced: "clean_response (before @ fence @ ws1 @ t @ ws2 @ str ''```'' @ after) = strip t"
    using clean_fenced [OF assms] .
  have plain: "clean_response t = strip t"
    using clean_unfenced [OF assms(1)] .
  from assms(1) have "strip t \<noteq> []"
    by (simp add: json_shaped_def)
  with fenced plain show ?thesis
    by (simp add: parse_response_def parse_body_def)
qed

text \<open>
  The theorem at the example text of the spec between newlines: with the \<open>```json\<close> fence
  and whitespace around it, and with the plain fence.
\<close>

theorem fence_stripping_witness:
  \<open>json_shaped (str ''{"analysis_summary":"s","generated_files":{"app.jsx":"code"}}'') \<and>
   isspace 10 \<and> isspace 32 \<and>
   clean_response
     (str '' ```json\<newline>{"analysis_summary":"s","generated_files":{"app.jsx":"code"}}\<newline>```\<newline>'') =
   str ''{"analysis_summary":"s","generated_files":{"app.jsx":"code"}}'' \<and>
   clean_response
     (str ''```\<newline>{"analysis_summary":"s","generated_files":{"app.jsx":"code"}}\<newline>```'') =
   str ''{"analysis_summary":"s","generated_files":{"app.jsx":"code"}}'' \<and>
   parse_response json_loads
     (str ''```\<newline>{"analysis_summary":"s","generated_files":{"app.jsx":"code"}}\<newline>```'')
     (str ''A task tracker'') =
   parse_response json_loads
     (str ''{"analysis_summary":"s","generated_files":{"app.jsx":"code"}}'')
     (str ''A task tracker'')\<close>
proof -
  let ?t = \<open>str ''{"analysis_summary":"s","generated_files":{"app.jsx":"code"}}''\<close>
  have shaped: "json_shaped ?t"
    by (simp add: json_shaped_def json_first_def json_last_def text_eval)
  have ws: "isspace 10" "isspace 32" "\<forall>c\<in>set [10]. isspace c" "\<forall>c\<in>set [32]. isspace c"
    "\<forall>c\<in>set []. isspace c"
    by (simp_all add: isspace_def)
  have stripped: "strip ?t = ?t"
    by (simp add: text_eval)
  have tagged: "clean_response ([32] @ str ''```json'' @ [10] @ ?t @ [10] @ str ''```'' @ [10]) = ?t"
    using fence_stripping [of ?t "[10]" "[10]" "str ''```json''" "[32]" "[10]" json_loads "[]"]
      shaped ws stripped
    by simp
  have plain: "clean_response ([] @ str ''```'' @ [10] @ ?t @ [10] @ str ''```'' @ []) = ?t \<and>
      parse_response json_loads ([] @ str ''```'' @ [10] @ ?t @ [10] @ str ''```'' @ [])
        (str ''A task tracker'') = parse_response json_loads ?t (str ''A task tracker'')"
    using fence_stripping [of ?t "[10]" "[10]" "str ''```''" "[]" "[]" json_loads
        "str ''A task tracker''"] shaped ws stripped
    by simp
  from shaped ws(1,2) tagged plain show ?thesis
    by (simp add: str_def)
qed

text \<open>
  Claim C4. When the given mapping has a variant name as a key and not \<open>App.jsx\<close>, the
  files of the result map \<open>App.jsx\<close> to the content of a variant: the first variant key
  in the order of the mapping, so the only one when there is one. Every key of the given
  mapping, the variant among them, still has its content. The keys of the given mapping
  are distinct, as those of every Python \<open>dict\<close> are.
\<close>

theorem variant_entry_point:
  assumes "loads (clean_response t) = Inr (JDict m)" and "given_files m = Some fs"
    and "distinct (keys fs)" and "str ''App.jsx'' \<notin> set (keys fs)"
    and "\<exists>k\<in>set variant_names. k \<in> set (keys fs)"
  shows "\<exists>r k v pre post.
           parse_response loads t d = Inr r \<and>
           k \<in> set variant_names \<and> map_of fs k = Some v \<and>
           keys fs = pre @ k # post \<and> (\<forall>k'\<in>set pre. k' \<notin> set variant_names) \<and>
           map_of (files r) (str ''App.jsx'') = Some v \<and>
           (\<forall>k' v'. map_of fs k' = Some v' \<longrightarrow> map_of (files r) k' = Some v')"
proof -
  from parse_response_distinct [of loads t m fs d] assms(1-3) obtain nf r where
    nf: "map_react_file (find_react_file (keys fs)) fs = Inr nf" and
    r: "parse_response loads t d = Inr r" and
    f: "files r = add_placeholders (ensure_app_jsx nf) critical_files"
    by force
  from assms(5) have "find_react_file (keys fs) \<noteq> None"
    by (auto simp: find_react_file_None react_names_split)
  with remap_cases [OF nf] assms(4) obtain k v where
    k: "find_react_file (keys fs) = Some k" "k \<in> set variant_names" "map_of fs k = Some v"
      "nf = fs @ [(str ''App.jsx'', v)]"
    by (auto simp: contains_keys)
  from find_react_file_split [OF k(1)] obtain pre post where
    p: "keys fs = pre @ k # post" "\<forall>k'\<in>set pre. k' \<notin> set variant_names"
    by (auto simp: react_names_split)
  from assms(4) k(4) have "map_of nf (str ''App.jsx'') = Some v"
    by (simp add: map_add_Some_iff map_of_keys)
  then have app: "map_of (files r) (str ''App.jsx'') = Some v"
    by (simp add: f map_of_normalized)
  have "\<forall>k' v'. map_of fs k' = Some v' \<longrightarrow> map_of (files r) k' = Some v'"
    using normalized_keeps [OF nf] by (simp add: f)
  with r k p app show ?thesis by blast
qed

text \<open>The theorem at a mapping with two variants: the first, \<open>app.js\<close>, gives the content.\<close>

theorem variant_entry_point_witness:
  \<open>json_loads (clean_response (str ''{"generated_files": {"app.js": "first", "App.tsx": "second"}}'')) =
     Inr (JDict [(str ''generated_files'',
                  JDict [(str ''app.js'', JStr (str ''first'')),
                         (str ''App.tsx'', JStr (str ''second''))])]) \<and>
   (\<exists>r. parse_response json_loads
          (str ''{"generated_files": {"app.js": "first", "App.tsx": "second"}}'')
          (str ''A task tracker'') = Inr r \<and>
        map_of (files r) (str ''App.jsx'') = Some (JStr (str ''first'')) \<and>
        map_of (files r) (str ''app.js'') = Some (JStr (str ''first'')) \<and>
        map_of (files r) (str ''App.tsx'') = Some (JStr (str ''second'')))\<close>
proof -
  let ?t = \<open>str ''{"generated_files": {"app.js": "first", "App.tsx": "second"}}''\<close>
  let ?fs = "[(str ''app.js'', JStr (str ''first'')), (str ''App.tsx'', JStr (str ''second''))]"
  let ?m = "[(str ''generated_files'', JDict ?fs)]"
  have l: "json_loads (clean_response ?t) = Inr (JDict ?m)"
    by (simp add: text_eval decoder_eval)
  have g: "given_files ?m = Some ?fs"
    by (simp add: given_files_def)
  have d: "distinct (keys ?fs)" "str ''App.jsx'' \<notin> set (keys ?fs)"
    "\<exists>k\<in>set variant_names. k \<in> set (keys ?fs)"
    by (simp_all add: keys_def variant_names_def str_def)
  have look: "map_of ?fs (str ''app.js'') = Some (JStr (str ''first''))"
    "map_of ?fs (str ''App.tsx'') = Some (JStr (str ''second''))"
    by (simp_all add: str_def)
  from variant_entry_point [of json_loads ?t ?m ?fs "str ''A task tracker''"] l g d
  obtain r k v pre post where
    r: "parse_response json_loads ?t (str ''A task tracker'') = Inr r" and
    k: "k \<in> set variant_names" "map_of ?fs k = Some v" "keys ?fs = pre @ k # post"
       "\<forall>k'\<in>set pre. k' \<notin> set variant_names" and
    app: "map_of (files r) (str ''App.jsx'') = Some v" and
    keep: "\<forall>k' v'. map_of ?fs k' = Some v' \<longrightarrow> map_of (files r) k' = Some v'"
    by blast
  have "pre = []"
  proof (cases pre)
    case Nil
    then show ?thesis .
  next
    case (Cons a as)
    with k(3) have "a = str ''app.js''" by (simp add: keys_def)
    with k(4) Cons show ?thesis by (simp add: variant_names_def)
  qed
  with k(3) have "k = str ''app.js''" by (simp add: keys_def)
  with k(2) look(1) have "v = JStr (str ''first'')" by simp
  with r app keep look l show ?thesis by blast
qed

text \<open>
  Claim C5. When the given mapping has none of the six names as a key, the files of the
  result map \<open>App.jsx\<close> to its placeholder; that placeholder is not the one of \<open>models.py\<close>
  nor the one of \<open>README.md\<close>; and whatever content the given mapping has for a key, the
  empty text included, the files of the result have for it too.
\<close>

theorem placeholder_backfill:
  assumes "loads (clean_response t) = Inr (JDict m)" and "given_files m = Some fs"
    and "distinct (keys fs)"
  shows "\<exists>r. parse_response loads t d = Inr r \<and>
           ((\<forall>k\<in>set react_names. k \<notin> set (keys fs)) \<longrightarrow>
              map_of (files r) (str ''App.jsx'') = Some (JStr app_jsx_placeholder)) \<and>
           map_of critical_files (str ''models.py'') \<noteq> Some app_jsx_placeholder \<and>
           map_of critical_files (str ''README.md'') \<noteq> Some app_jsx_placeholder \<and>
           (\<forall>k v. map_of fs k = Some v \<longrightarrow> map_of (files r) k = Some v)"
proof -
  from parse_response_distinct [of loads t m fs d] assms obtain nf r where
    nf: "map_react_file (find_react_file (keys fs)) fs = Inr nf" and
    r: "parse_response loads t d = Inr r" and
    f: "files r = add_placeholders (ensure_app_jsx nf) critical_files"
    by force
  have app: "map_of (files r) (str ''App.jsx'') = Some (JStr app_jsx_placeholder)"
    if none: "\<forall>k\<in>set react_names. k \<notin> set (keys fs)"
  proof -
    from none have "find_react_file (keys fs) = None"
      by (auto simp: find_react_file_None)
    with remap_cases [OF nf] have "nf = fs" by auto
    moreover from none have "map_of fs (str ''App.jsx'') = None"
      using map_of_keys [of "str ''App.jsx''" fs] by (simp add: react_names_def)
    ultimately show ?thesis by (simp add: f map_of_normalized)
  qed
  have differ: "map_of critical_files (str ''models.py'') \<noteq> Some app_jsx_placeholder"
    "map_of critical_files (str ''README.md'') \<noteq> Some app_jsx_placeholder"
    unfolding critical_lookup by (simp_all add: app_jsx_placeholder_def str_def)
  have "\<forall>k v. map_of fs k = Some v \<longrightarrow> map_of (files r) k = Some v"
    using normalized_keeps [OF nf] by (simp add: f)
  with r app differ show ?thesis by blast
qed

text \<open>The theorem at a mapping whose only file, \<open>models.py\<close>, is empty: it stays empty.\<close>

theorem placeholder_backfill_witness:
  \<open>json_loads (clean_response (str ''{"generated_files": {"models.py": ""}}'')) =
     Inr (JDict [(str ''generated_files'', JDict [(str ''models.py'', JStr [])])]) \<and>
   (\<exists>r. parse_response json_loads (str ''{"generated_files": {"models.py": ""}}'')
          (str ''A task tracker'') = Inr r \<and>
        map_of (files r) (str ''App.jsx'') = Some (JStr app_jsx_placeholder) \<and>
        map_of (files r) (str ''models.py'') = Some (JStr []))\<close>
proof -
  let ?t = \<open>str ''{"generated_files": {"models.py": ""}}''\<close>
  let ?fs = "[(str ''models.py'', JStr [])]"
  let ?m = "[(str ''generated_files'', JDict ?fs)]"
  have l: "json_loads (clean_response ?t) = Inr (JDict ?m)"
    by (simp add: text_eval decoder_eval)
  have g: "given_files ?m = Some ?fs"
    by (simp add: given_files_def)
  have d: "distinct (keys ?fs)" "\<forall>k\<in>set react_names. k \<notin> set (keys ?fs)"
    by (simp_all add: keys_def react_names_def str_def)
  have look: "map_of ?fs (str ''models.py'') = Some (JStr [])"
    by simp
  from placeholder_backfill [of json_loads ?t ?m ?fs "str ''A task tracker''"] l g d look
  show ?thesis by blast
qed

text \<open>
  Claim C6. Normalizing again gives the same result: when a run returns \<open>r\<close>, a run on a
  text that decodes to the object with the summary of \<open>r\<close> and the files of \<open>r\<close> returns
  \<open>r\<close>, whatever the description.
\<close>

theorem normalization_idempotent:
  assumes "parse_response loads t d = Inr r"
    and "loads' (clean_response t') =
           Inr (JDict [(str ''analysis_summary'', summary r),
                       (str ''generated_files'', JDict (files r))])"
  shows "parse_response loads' t' d' = Inr r"
proof -
  let ?m = "[(str ''analysis_summary'', summary r), (str ''generated_files'', JDict (files r))]"
  note fr = parse_response_files [OF assms(1)]
  have ne: "str ''analysis_summary'' \<noteq> str ''generated_files''"
    by (simp add: str_def)
  then have g: "given_files ?m = Some (files r)"
    by (simp add: given_files_def)
  from parse_response_distinct [of loads' t' ?m "files r" d'] assms(2) g fr(1) obtain nf where
    nf: "map_react_file (find_react_file (keys (files r))) (files r) = Inr nf" and
    p: "parse_response loads' t' d' =
          Inr \<lparr>summary = summary r, files = add_placeholders (ensure_app_jsx nf) critical_files\<rparr>"
    by auto
  from remap_cases [OF nf] fr(2) have "nf = files r" by auto
  with fr(2) have "ensure_app_jsx nf = files r"
    by (simp add: ensure_app_jsx_def)
  moreover have "add_placeholders (files r) critical_files = files r"
    using fr(3-5) by (intro add_placeholders_same) (simp add: critical_files_def)
  ultimately show ?thesis using p by simp
qed

text \<open>
  The theorem at the example of the spec: the second text holds the five files of the
  first result, the placeholders with their newlines escaped (\<open>92, 110\<close> is a backslash
  and the letter n).
\<close>

theorem normalization_idempotent_witness:
  \<open>parse_response json_loads
     (str ''{"analysis_summary":"s","generated_files":{"app.jsx":"code"}}'') (str ''A task tracker'') =
   Inr \<lparr>summary = JStr (str ''s''),
        files = [(str ''app.jsx'', JStr (str ''code'')),
                 (str ''App.jsx'', JStr (str ''code'')),
                 (str ''models.py'', JStr (str ''# SQLAlchemy models\<newline># File not generated by AI'')),
                 (str ''main.py'', JStr (str ''# FastAPI application\<newline># File not generated by AI'')),
                 (str ''README.md'', JStr (str ''# README\<newline># File not generated by AI''))]\<rparr> \<and>
   parse_response json_loads
     (str ''{"analysis_summary":"s","generated_files":{"app.jsx":"code","App.jsx":"code",'' @
      str ''"models.py":"# SQLAlchemy models'' @ [92, 110] @ str ''# File not generated by AI",'' @
      str ''"main.py":"# FastAPI application'' @ [92, 110] @ str ''# File not generated by AI",'' @
      str ''"README.md":"# README'' @ [92, 110] @ str ''# File not generated by AI"}}'')
     (str ''Another description'') =
   Inr \<lparr>summary = JStr (str ''s''),
        files = [(str ''app.jsx'', JStr (str ''code'')),
                 (str ''App.jsx'', JStr (str ''code'')),
                 (str ''models.py'', JStr (str ''# SQLAlchemy models\<newline># File not generated by AI'')),
                 (str ''main.py'', JStr (str ''# FastAPI application\<newline># File not generated by AI'')),
                 (str ''README.md'', JStr (str ''# README\<newline># File not generated by AI''))]\<rparr>\<close>
proof -
  let ?t = \<open>str ''{"analysis_summary":"s","generated_files":{"app.jsx":"code"}}''\<close>
  let ?t' = \<open>str ''{"analysis_summary":"s","generated_files":{"app.jsx":"code","App.jsx":"code",'' @
      str ''"models.py":"# SQLAlchemy models'' @ [92, 110] @ str ''# File not generated by AI",'' @
      str ''"main.py":"# FastAPI application'' @ [92, 110] @ str ''# File not generated by AI",'' @
      str ''"README.md":"# README'' @ [92, 110] @ str ''# File not generated by AI"}}''\<close>
  let ?fs = "[(str ''app.jsx'', JStr (str ''code'')),
              (str ''App.jsx'', JStr (str ''code'')),
              (str ''models.py'', JStr (str ''# SQLAlchemy models\<newline># File not generated by AI'')),
              (str ''main.py'', JStr (str ''# FastAPI application\<newline># File not generated by AI'')),
              (str ''README.md'', JStr (str ''# README\<newline># File not generated by AI''))]"
  let ?r = "\<lparr>summary = JStr (str ''s''), files = ?fs\<rparr>"
  have first: "parse_response json_loads ?t (str ''A task tracker'') = Inr ?r"
    by (simp add: text_eval decoder_eval normalizer_eval)
  have again: "json_loads (clean_response ?t') =
      Inr (JDict [(str ''analysis_summary'', summary ?r), (str ''generated_files'', JDict (files ?r))])"
    by (simp add: text_eval decoder_eval)
  from normalization_idempotent [of json_loads ?t "str ''A task tracker''" ?r json_loads ?t'
      "str ''Another description''"] first again
  have "parse_response json_loads ?t' (str ''Another description'') = Inr ?r"
    by blast
  with first show ?thesis by simp
qed

text \<open>
  Claim C7. For the description \<open>A task tracker\<close> and the text
  \<open>{"analysis_summary":"s","generated_files":{"app.jsx":"code"}}\<close> inside a \<open>```json\<close>
  fence, the result has the summary \<open>s\<close>; its files map \<open>app.jsx\<close> and \<open>App.jsx\<close> to \<open>code\<close>,
  and \<open>models.py\<close>, \<open>main.py\<close> and \<open>README.md\<close> to their placeholders.
\<close>

theorem parse_response_example:
  \<open>parse_response json_loads
     (str ''```json\<newline>{"analysis_summary":"s","generated_files":{"app.jsx":"code"}}\<newline>```'')
     (str ''A task tracker'') =
   Inr \<lparr>summary = JStr (str ''s''),
        files = [(str ''app.jsx'', JStr (str ''code'')),
                 (str ''App.jsx'', JStr (str ''code'')),
                 (str ''models.py'', JStr (str ''# SQLAlchemy models\<newline># File not generated by AI'')),
                 (str ''main.py'', JStr (str ''# FastAPI application\<newline># File not generated by AI'')),
                 (str ''README.md'', JStr (str ''# README\<newline># File not generated by AI''))]\<rparr>\<close>
  by (simp add: text_eval decoder_eval normalizer_eval)

text \<open>
  Claim C8. \<open>get_example\<close> of \<open>food-pantry\<close> returns the entry of the table as it is, and
  its files have exactly the four critical keys; for every identifier other than
  \<open>food-pantry\<close>, \<open>library\<close> and \<open>clinic\<close> it raises the \<open>ValueError\<close> that says the example
  was not found; \<open>list_examples\<close> returns these three identifiers.
\<close>

theorem example_catalog:
  "(\<exists>r. get_example (str ''food-pantry'') = Inr r \<and>
        map_of EXAMPLES (str ''food-pantry'') = Some r \<and>
        keys (files r) = [str ''models.py'', str ''main.py'', str ''App.jsx'', str ''README.md''] \<and>
        contains (files r) (str ''App.jsx'') \<and> contains (files r) (str ''models.py'') \<and>
        contains (files r) (str ''main.py'') \<and> contains (files r) (str ''README.md'')) \<and>
   (\<forall>example_id. example_id \<notin> {str ''food-pantry'', str ''library'', str ''clinic''} \<longrightarrow>
      get_example example_id =
        Inl (ValueError (str ''Example '' @ quoted example_id @
                         str '' not found. Available examples: food-pantry, library, clinic''))) \<and>
   list_examples = [str ''food-pantry'', str ''library'', str ''clinic'']"
proof -
  let ?r = "\<lparr>summary = JStr food_pantry_summary,
             files = [(str ''models.py'', JStr food_pantry_models_py),
                      (str ''main.py'', JStr food_pantry_main_py),
                      (str ''App.jsx'', JStr food_pantry_App_jsx),
                      (str ''README.md'', JStr food_pantry_README_md)]\<rparr>"
  have entry: "map_of EXAMPLES (str ''food-pantry'') = Some ?r"
    by (simp add: EXAMPLES_def)
  then have got: "get_example (str ''food-pantry'') = Inr ?r"
    by (simp add: get_example_def contains_EXAMPLES)
  have four: "keys (files ?r) = [str ''models.py'', str ''main.py'', str ''App.jsx'', str ''README.md'']"
    by (simp add: keys_def)
  then have has: "contains (files ?r) (str ''App.jsx'')" "contains (files ?r) (str ''models.py'')"
    "contains (files ?r) (str ''main.py'')" "contains (files ?r) (str ''README.md'')"
    by (simp_all add: contains_def map_of_eq_None_iff)
  have unknown: "get_example example_id =
      Inl (ValueError (str ''Example '' @ quoted example_id @
                       str '' not found. Available examples: food-pantry, library, clinic''))"
    if "example_id \<notin> {str ''food-pantry'', str ''library'', str ''clinic''}" for example_id
  proof -
    from that have "\<not> contains EXAMPLES example_id"
      by (simp add: contains_EXAMPLES)
    then show ?thesis
      unfolding get_example_def Let_def available_examples by (simp add: str_def)
  qed
  have listed: "list_examples = [str ''food-pantry'', str ''library'', str ''clinic'']"
    by (simp add: list_examples_def keys_EXAMPLES)
  from entry got four has unknown listed show ?thesis by blast
qed

text \<open>The theorem at the identifier \<open>unknown-id\<close>.\<close>

theorem example_catalog_witness:
  "str ''unknown-id'' \<notin> {str ''food-pantry'', str ''library'', str ''clinic''} \<and>
   get_example (str ''unknown-id'') =
     Inl (ValueError (str ''Example '' @ quoted (str ''unknown-id'') @
                      str '' not found. Available examples: food-pantry, library, clinic'')) \<and>
   list_examples = [str ''food-pantry'', str ''library'', str ''clinic'']"
proof -
  have "str ''unknown-id'' \<notin> {str ''food-pantry'', str ''library'', str ''clinic''}"
    by (simp add: str_def)
  with example_catalog show ?thesis by blast
qed

text \<open>
  Claim C9. Two runs of \<open>_parse_response\<close> on the same text and description return the
  same outcome (the same summary and files, or the same error), whatever the service
  instance each is called on, whatever the log holds when each begins, however each
  formats a list for the log, and for any two decoders that give the same for the
  stripped text. Among several variant keys, the first in the order of the mapping gives
  \<open>App.jsx\<close> its content, in both runs.
\<close>

theorem two_runs_agree:
  assumes "loads1 (clean_response t) = loads2 (clean_response t)"
  shows "fst (parse_response_logged loads1 list_str1 self1 records1 t d) =
         fst (parse_response_logged loads2 list_str2 self2 records2 t d) \<and>
    (\<forall>m fs pre k post v.
        loads1 (clean_response t) = Inr (JDict m) \<and> given_files m = Some fs \<and>
        distinct (keys fs) \<and> str ''App.jsx'' \<notin> set (keys fs) \<and>
        keys fs = pre @ k # post \<and> k \<in> set variant_names \<and>
        (\<forall>k'\<in>set pre. k' \<notin> set variant_names) \<and> map_of fs k = Some v \<longrightarrow>
        (\<exists>r. fst (parse_response_logged loads1 list_str1 self1 records1 t d) = Inr r \<and>
             fst (parse_response_logged loads2 list_str2 self2 records2 t d) = Inr r \<and>
             map_of (files r) (str ''App.jsx'') = Some v))"
proof -
  have same: "parse_response loads1 t d = parse_response loads2 t d"
    using assms by (simp add: parse_response_def parse_body_def)
  then have runs: "fst (parse_response_logged loads1 list_str1 self1 records1 t d) =
      fst (parse_response_logged loads2 list_str2 self2 records2 t d)"
    by (simp add: parse_response_logged_result)
  have "\<exists>r. fst (parse_response_logged loads1 list_str1 self1 records1 t d) = Inr r \<and>
             fst (parse_response_logged loads2 list_str2 self2 records2 t d) = Inr r \<and>
             map_of (files r) (str ''App.jsx'') = Some v"
    if "loads1 (clean_response t) = Inr (JDict m)" and "given_files m = Some fs"
      and "distinct (keys fs)" and "str ''App.jsx'' \<notin> set (keys fs)"
      and "keys fs = pre @ k # post" and "k \<in> set variant_names"
      and "\<forall>k'\<in>set pre. k' \<notin> set variant_names" and "map_of fs k = Some v"
    for m fs pre k post v
    using first_variant_wins [of loads1 t m fs pre k post v d] that same
    by (auto simp: parse_response_logged_result)
  with runs show ?thesis by blast
qed

text \<open>
  The theorem at a mapping with two variants. The first run, with its log, is evaluated
  in full; the second has another instance, a log that is not empty, another list
  format and another decoder that agrees on this text.
\<close>

theorem two_runs_agree_witness:
  \<open>parse_response_logged json_loads
     (\<lambda>ks. str ''['' @ join (str '', '') (map quoted ks) @ str '']'')
     \<lparr>client = (), model_name = str ''model-a''\<rparr> []
     (str ''{"generated_files": {"app.js": "first", "App.tsx": "second"}}'') (str ''A task tracker'') =
   (Inr \<lparr>summary = JStr (str ''Generated application based on: A task tracker''),
         files = [(str ''app.js'', JStr (str ''first'')),
                  (str ''App.tsx'', JStr (str ''second'')),
                  (str ''App.jsx'', JStr (str ''first'')),
                  (str ''models.py'', JStr (str ''# SQLAlchemy models\<newline># File not generated by AI'')),
                  (str ''main.py'', JStr (str ''# FastAPI application\<newline># File not generated by AI'')),
                  (str ''README.md'', JStr (str ''# README\<newline># File not generated by AI''))]\<rparr>,
    [(INFO, str ''Parsing AI response (first 500 chars): {"generated_files": {"app.js": "first", "App.tsx": "second"}}''),
     (INFO, str ''Files received from AI: ['app.js', 'App.tsx']''),
     (INFO, str ''Mapped app.js to App.jsx''),
     (WARNING, str ''models.py not found in AI response, adding placeholder''),
     (WARNING, str ''main.py not found in AI response, adding placeholder''),
     (WARNING, str ''README.md not found in AI response, adding placeholder''),
     (INFO, str ''Final files to return: ['app.js', 'App.tsx', 'App.jsx', 'models.py', 'main.py', 'README.md']'')]) \<and>
   fst (parse_response_logged
     (\<lambda>text. Inr (JDict [(str ''generated_files'',
                           JDict [(str ''app.js'', JStr (str ''first'')),
                                  (str ''App.tsx'', JStr (str ''second''))])]))
     (\<lambda>ks. concat ks)
     \<lparr>client = True, model_name = str ''model-b''\<rparr> [(ERROR, str ''an earlier record'')]
     (str ''{"generated_files": {"app.js": "first", "App.tsx": "second"}}'') (str ''A task tracker'')) =
   fst (parse_response_logged json_loads
     (\<lambda>ks. str ''['' @ join (str '', '') (map quoted ks) @ str '']'')
     \<lparr>client = (), model_name = str ''model-a''\<rparr> []
     (str ''{"generated_files": {"app.js": "first", "App.tsx": "second"}}'') (str ''A task tracker''))\<close>
proof -
  let ?t = \<open>str ''{"generated_files": {"app.js": "first", "App.tsx": "second"}}''\<close>
  let ?fs = "[(str ''app.js'', JStr (str ''first'')), (str ''App.tsx'', JStr (str ''second''))]"
  let ?m = "[(str ''generated_files'', JDict ?fs)]"
  let ?d = "str ''A task tracker''"
  let ?loads2 = "\<lambda>text::pystr. (Inr (JDict ?m) :: exn + json)"
  let ?str1 = "\<lambda>ks. str ''['' @ join (str '', '') (map quoted ks) @ str '']''"
  let ?str2 = "\<lambda>ks::pystr list. concat ks"
  let ?self1 = "\<lparr>client = (), model_name = str ''model-a''\<rparr>"
  let ?self2 = "\<lparr>client = True, model_name = str ''model-b''\<rparr>"
  have l: "json_loads (clean_response ?t) = Inr (JDict ?m)"
    by (simp add: text_eval decoder_eval)
  then have same: "json_loads (clean_response ?t) = ?loads2 (clean_response ?t)"
    by simp
  have run1: "parse_response_logged json_loads ?str1 ?self1 [] ?t ?d =
   (Inr \<lparr>summary = JStr (str ''Generated application based on: A task tracker''),
         files = [(str ''app.js'', JStr (str ''first'')),
                  (str ''App.tsx'', JStr (str ''second'')),
                  (str ''App.jsx'', JStr (str ''first'')),
                  (str ''models.py'', JStr (str ''# SQLAlchemy models\<newline># File not generated by AI'')),
                  (str ''main.py'', JStr (str ''# FastAPI application\<newline># File not generated by AI'')),
                  (str ''README.md'', JStr (str ''# README\<newline># File not generated by AI''))]\<rparr>,
    [(INFO, str ''Parsing AI response (first 500 chars): {\"generated_files\": {\"app.js\": \"first\", \"App.tsx\": \"second\"}}''),
     (INFO, str ''Files received from AI: ['app.js', 'App.tsx']''),
     (INFO, str ''Mapped app.js to App.jsx''),
     (WARNING, str ''models.py not found in AI response, adding placeholder''),
     (WARNING, str ''main.py not found in AI response, adding placeholder''),
     (WARNING, str ''README.md not found in AI response, adding placeholder''),
     (INFO, str ''Final files to return: ['app.js', 'App.tsx', 'App.jsx', 'models.py', 'main.py', 'README.md']'')])"
    by (simp add: parse_response_logged_def parse_body_logged_def map_react_file_logged_def
        ensure_app_jsx_logged_def quoted_def text_eval decoder_eval normalizer_eval)
  from two_runs_agree [of json_loads ?t ?loads2 ?str1 ?self1 "[]" ?d ?str2 ?self2
      "[(ERROR, str ''an earlier record'')]", OF same]
  have "fst (parse_response_logged json_loads ?str1 ?self1 [] ?t ?d) =
      fst (parse_response_logged ?loads2 ?str2 ?self2 [(ERROR, str ''an earlier record'')] ?t ?d)"
    by (rule conjunct1)
  with run1 show ?thesis by simp
qed

text \<open>
  Claim C10. The files of a result are the given mapping, in its order and with its
  contents, followed by added entries whose keys are among the four critical names; no
  key occurs twice. So no entry is removed or rewritten, whatever its characters.
\<close>

theorem files_only_extended:
  assumes "loads (clean_response t) = Inr (JDict m)" and "given_files m = Some fs"
    and "distinct (keys fs)"
  shows "\<exists>r added. parse_response loads t d = Inr r \<and> files r = fs @ added \<and>
           set (keys added) \<subseteq>
             {str ''App.jsx'', str ''models.py'', str ''main.py'', str ''README.md''} \<and>
           distinct (keys (files r)) \<and>
           (\<forall>k v. map_of fs k = Some v \<longrightarrow> map_of (files r) k = Some v)"
proof -
  from parse_response_distinct [of loads t m fs d] assms obtain nf r where
    nf: "map_react_file (find_react_file (keys fs)) fs = Inr nf" and
    r: "parse_response loads t d = Inr r" and
    f: "files r = add_placeholders (ensure_app_jsx nf) critical_files"
    by force
  from normalized_extends [OF nf] obtain added where
    "files r = fs @ added"
    "set (keys added) \<subseteq> {str ''App.jsx'', str ''models.py'', str ''main.py'', str ''README.md''}"
    by (auto simp: f)
  moreover have "distinct (keys (files r))"
    using normalized_distinct [OF nf assms(3)] by (simp add: f)
  moreover have "\<forall>k v. map_of fs k = Some v \<longrightarrow> map_of (files r) k = Some v"
    using normalized_keeps [OF nf] by (simp add: f)
  ultimately show ?thesis using r by blast
qed

text \<open>The theorem at a file whose content has code points outside ASCII.\<close>

theorem files_only_extended_witness:
  \<open>json_loads (clean_response
       (str ''{"generated_files": {"notes.txt": "'' @ [233, 8364, 128512] @ str ''"}}'')) =
     Inr (JDict [(str ''generated_files'',
                  JDict [(str ''notes.txt'', JStr [233, 8364, 128512])])]) \<and>
   (\<exists>r added. parse_response json_loads
          (str ''{"generated_files": {"notes.txt": "'' @ [233, 8364, 128512] @ str ''"}}'')
          (str ''A task tracker'') = Inr r \<and>
        files r = (str ''notes.txt'', JStr [233, 8364, 128512]) # added \<and>
        map_of (files r) (str ''notes.txt'') = Some (JStr [233, 8364, 128512]))\<close>
proof -
  let ?t = \<open>str ''{"generated_files": {"notes.txt": "'' @ [233, 8364, 128512] @ str ''"}}''\<close>
  let ?fs = "[(str ''notes.txt'', JStr [233, 8364, 128512])]"
  let ?m = "[(str ''generated_files'', JDict ?fs)]"
  have l: "json_loads (clean_response ?t) = Inr (JDict ?m)"
    by (simp add: text_eval decoder_eval)
  have g: "given_files ?m = Some ?fs"
    by (simp add: given_files_def)
  have d: "distinct (keys ?fs)"
    by (simp add: keys_def)
  have look: "map_of ?fs (str ''notes.txt'') = Some (JStr [233, 8364, 128512])"
    by simp
  from files_only_extended [of json_loads ?t ?m ?fs "str ''A task tracker''"] l g d look
  show ?thesis by fastforce
qed

end
